theory Spec2Isabelle
  imports Complex_Main
begin

section \<open>Python strings and JSON values\<close>

text \<open>
  Python \<open>str\<close> values are modelled as \<open>string\<close>, read as UTF-8 byte sequences: the
  direction labels of the repository contain the arrow U+2192, which is three bytes.
  Case folding, whitespace and digits are the ASCII ones; bytes from 0x80 on are opaque
  (Python would also fold and strip non-ASCII letters and spaces).
\<close>

definition arrow :: string where
  "arrow = [CHR 0xE2, CHR 0x86, CHR 0x92]"

definition is_space :: "char \<Rightarrow> bool" where
  "is_space c = (c \<in> set [CHR 0x09, CHR 0x0A, CHR 0x0B, CHR 0x0C, CHR 0x0D,
                           CHR 0x1C, CHR 0x1D, CHR 0x1E, CHR 0x1F, CHR 0x20])"

definition is_digit :: "char \<Rightarrow> bool" where
  "is_digit c = (c \<in> set ''0123456789'')"

definition lower_char :: "char \<Rightarrow> char" where
  "lower_char c =
     (let n = (of_char c :: nat) in if 65 \<le> n \<and> n \<le> 90 then char_of (n + 32) else c)"

definition lower :: "string \<Rightarrow> string" where
  "lower s = map lower_char s"

definition strip :: "string \<Rightarrow> string" where
  "strip s = rev (dropWhile is_space (rev (dropWhile is_space s)))"

text \<open>\<open>sub in s\<close> on strings: \<open>sub\<close> occurs in \<open>s\<close> as a contiguous run.\<close>

fun contains :: "string \<Rightarrow> string \<Rightarrow> bool" where
  "contains [] sub = (sub = [])"
| "contains (c # s) sub = (take (length sub) (c # s) = sub \<or> contains s sub)"

definition startswith :: "string \<Rightarrow> string \<Rightarrow> bool" where
  "startswith s p = (take (length p) s = p)"

definition endswith :: "string \<Rightarrow> string \<Rightarrow> bool" where
  "endswith s p = (length p \<le> length s \<and> drop (length s - length p) s = p)"

text \<open>\<open>s.split()\<close>: the maximal runs of non-whitespace characters.\<close>

fun split_acc :: "string \<Rightarrow> string \<Rightarrow> string list" where
  "split_acc cur [] = (if cur = [] then [] else [cur])"
| "split_acc cur (c # s) =
     (if is_space c then (if cur = [] then split_acc [] s else cur # split_acc [] s)
      else split_acc (cur @ [c]) s)"

definition split :: "string \<Rightarrow> string list" where
  "split s = split_acc [] s"

text \<open>
  A parsed JSON value. A Python \<open>dict\<close> with string keys is an association list, read
  with \<open>map_of\<close>.
\<close>

datatype json =
    JNull
  | JBool bool
  | JInt int
  | JFloat real
  | JStr string
  | JList "json list"
  | JDict "(string \<times> json) list"

type_synonym pydict = "(string \<times> json) list"

text \<open>\<open>d.get(k)\<close> with the default \<open>None\<close>.\<close>

definition dict_get :: "pydict \<Rightarrow> string \<Rightarrow> json" where
  "dict_get d k = (case map_of d k of None \<Rightarrow> JNull | Some v \<Rightarrow> v)"

section \<open>Core models (core/models.py)\<close>

datatype MCPMessageDirection =
  USER_TO_LLM | LLM_TO_MCP_CLIENT | MCP_CLIENT_TO_SERVER | SERVER_TO_API

datatype MCPProtocol = JSON_RPC | HTTP | WEBSOCKET | STDIO

text \<open>The \<open>.value\<close> of the two string enums.\<close>

fun direction_value :: "MCPMessageDirection \<Rightarrow> string" where
  "direction_value USER_TO_LLM = ''user'' @ arrow @ ''llm''"
| "direction_value LLM_TO_MCP_CLIENT = ''llm'' @ arrow @ ''mcp_client''"
| "direction_value MCP_CLIENT_TO_SERVER = ''mcp_client'' @ arrow @ ''server''"
| "direction_value SERVER_TO_API = ''server'' @ arrow @ ''api''"

fun protocol_value :: "MCPProtocol \<Rightarrow> string" where
  "protocol_value JSON_RPC = ''JSON-RPC''"
| "protocol_value HTTP = ''HTTP''"
| "protocol_value WEBSOCKET = ''WebSocket''"
| "protocol_value STDIO = ''stdio''"

text \<open>A \<open>datetime\<close> is the number of microseconds since the epoch.\<close>

type_synonym datetime = int

record MCPMessageTrace =
  direction :: MCPMessageDirection
  protocol :: MCPProtocol
  payload :: pydict
  timestamp :: datetime
  latency_ms :: "int option"
  error_code :: "string option"
  retry_attempt :: "int option"

section \<open>The stdio proxy (interceptors/mcp\_proxy.py, mcp\_proxy\_runner.py)\<close>

text \<open>
  What the model takes from the Python runtime: \<open>json.loads\<close> (\<open>None\<close>:
  \<open>JSONDecodeError\<close>), the time text that \<open>logging\<close> puts at the head of the k-th record
  it formats, the text an f-string gives for a JSON value that is not a string, and
  \<open>str(e)\<close> of the validation error raised for a payload that is not a dict.
\<close>

record python_runtime =
  json_loads :: "string \<Rightarrow> json option"
  asctime :: "nat \<Rightarrow> string"
  format_value :: "json \<Rightarrow> string"
  validation_error :: "json \<Rightarrow> string"

text \<open>
  One line of \<open>mcp_audit_messages.jsonl\<close>, as \<open>enhanced_audit_message_callback\<close>
  builds it.
\<close>

record message_data =
  md_timestamp :: datetime
  md_server_name :: string
  md_server_process_id :: int
  md_direction :: string
  md_protocol :: string
  md_payload :: pydict
  md_latency_ms :: "int option"
  md_error_code :: "string option"
  md_llm_initiated :: bool
  md_tool_method :: json
  md_tool_name :: json

text \<open>
  The proxy object together with the streams it writes: \<open>server_stdin\<close> collects what
  has been written to the child's stdin, \<open>host_stdout\<close> what has been written to the
  proxy's own stdout, which is the stream the host reads, \<open>audit_file\<close> the lines
  appended by the audit callback. \<open>server_stdin_open\<close>, \<open>server_stdout_open\<close> and
  \<open>server_stderr_open\<close> stand for the tests \<open>self.server_process and
  self.server_process.stdin\<close> (and \<open>.stdout\<close>, \<open>.stderr\<close>). \<open>stdout_handler\<close> tells
  whether the root logger has a handler on \<open>sys.stdout\<close>, and \<open>log_records\<close> counts the
  records that handler has written.
\<close>

record proxy_state =
  server_stdin_open :: bool
  server_stdout_open :: bool
  server_stderr_open :: bool
  server_stdin :: string
  host_stdout :: string
  captured_messages :: "MCPMessageTrace list"
  message_counter :: nat
  audit_file :: "message_data list"
  stdout_handler :: bool
  log_records :: nat

subsection \<open>Logging\<close>

text \<open>
  \<open>mcp_proxy_runner\<close>, the module the rewritten host configuration starts, calls
  \<open>logging.basicConfig(level=logging.INFO, format='%(asctime)s - %(name)s -
  %(levelname)s - %(message)s', handlers=[FileHandler(...), StreamHandler(sys.stdout)])\<close>
  when it is loaded. From then on every record of level \<open>INFO\<close> or above, of the logger
  of any module, is written as one formatted line to the stdout of the proxy. The log
  file is left out, and the encoding of stdout is taken to have every character of a
  message (UTF-8). Without the runner (\<open>run_proxy\<close> of \<open>mcp_proxy.py\<close> configures
  nothing) no record reaches stdout.
\<close>

datatype log_level = DEBUG | INFO | WARNING | ERROR

fun levelname :: "log_level \<Rightarrow> string" where
  "levelname DEBUG = ''DEBUG''"
| "levelname INFO = ''INFO''"
| "levelname WARNING = ''WARNING''"
| "levelname ERROR = ''ERROR''"

fun is_enabled_for :: "log_level \<Rightarrow> bool" where
  "is_enabled_for DEBUG = False"
| "is_enabled_for INFO = True"
| "is_enabled_for WARNING = True"
| "is_enabled_for ERROR = True"

definition line_feed :: char where
  "line_feed = CHR 0x0A"

definition carriage_return :: char where
  "carriage_return = CHR 0x0D"

text \<open>A call \<open>logger.info(message)\<close>, \<open>.warning\<close>, \<open>.error\<close> or \<open>.debug\<close> of the logger \<open>name\<close>.\<close>

definition emit_log ::
  "python_runtime \<Rightarrow> string \<Rightarrow> log_level \<Rightarrow> string \<Rightarrow> proxy_state \<Rightarrow> proxy_state" where
  "emit_log rt name level message st =
     (if stdout_handler st \<and> is_enabled_for level then
        st\<lparr> host_stdout := host_stdout st @
                asctime rt (log_records st) @ '' - '' @ name @ '' - '' @ levelname level @
                '' - '' @ message @ [line_feed],
            log_records := log_records st + 1 \<rparr>
      else st)"

text \<open>
  The logger of \<open>mcp_proxy.py\<close> is named after the module. The two log messages of a
  captured message start with the sign U+1F4E1, four bytes.
\<close>

definition proxy_logger :: string where
  "proxy_logger = ''mcp_audit.interceptors.mcp_proxy''"

definition antenna :: string where
  "antenna = [CHR 0xF0, CHR 0x9F, CHR 0x93, CHR 0xA1]"

text \<open>
  \<open>{payload.get('method', 'response')}\<close> inside an f-string: a string is put in as it
  is, any other value through the runtime.
\<close>

definition method_or_response :: "python_runtime \<Rightarrow> pydict \<Rightarrow> string" where
  "method_or_response rt p =
     (case map_of p ''method'' of
        None \<Rightarrow> ''response''
      | Some (JStr s) \<Rightarrow> s
      | Some v \<Rightarrow> format_value rt v)"

text \<open>
  \<open>str(e)\<close> of the \<open>AttributeError\<close> that \<open>v.get\<close> raises for a value without that
  method.
\<close>

fun type_name :: "json \<Rightarrow> string" where
  "type_name JNull = ''NoneType''"
| "type_name (JBool b) = ''bool''"
| "type_name (JInt i) = ''int''"
| "type_name (JFloat x) = ''float''"
| "type_name (JStr s) = ''str''"
| "type_name (JList vs) = ''list''"
| "type_name (JDict d) = ''dict''"

definition no_attribute_get :: "json \<Rightarrow> string" where
  "no_attribute_get v =
     [CHR 0x27] @ type_name v @ [CHR 0x27] @ '' object has no attribute '' @
     [CHR 0x27] @ ''get'' @ [CHR 0x27]"

subsection \<open>The audit callback\<close>

text \<open>
  \<open>enhanced_audit_message_callback(trace, server_name, server_process_id)\<close>; the
  \<open>params\<close> of a \<open>tools/call\<close> payload are read with \<open>.get('params', {}).get('name')\<close>,
  which raises when \<open>params\<close> is not a dict: the callback catches it, writes nothing
  to the file and logs the error. \<open>message_data_of\<close> is the dictionary it builds,
  \<open>logger_name\<close> the \<open>__name__\<close> of the runner module: \<open>__main__\<close> when it is started
  with \<open>python -m\<close>, as the rewritten configuration does.
\<close>

definition tool_name_of :: "pydict \<Rightarrow> json option" where
  "tool_name_of p =
     (if dict_get p ''method'' = JStr ''tools/call'' then
        (case map_of p ''params'' of
           None \<Rightarrow> Some JNull
         | Some (JDict ps) \<Rightarrow> Some (dict_get ps ''name'')
         | Some _ \<Rightarrow> None)
      else Some JNull)"

definition message_data_of :: "string \<Rightarrow> int \<Rightarrow> MCPMessageTrace \<Rightarrow> message_data option" where
  "message_data_of server_name server_process_id trace =
     (case tool_name_of (payload trace) of
        None \<Rightarrow> None
      | Some tn \<Rightarrow> Some
          \<lparr> md_timestamp = timestamp trace,
             md_server_name = server_name,
             md_server_process_id = server_process_id,
             md_direction = direction_value (direction trace),
             md_protocol = protocol_value (protocol trace),
             md_payload = payload trace,
             md_latency_ms = latency_ms trace,
             md_error_code = error_code trace,
             md_llm_initiated = (direction_value (direction trace) = ''llm_to_mcp_client''),
             md_tool_method = dict_get (payload trace) ''method'',
             md_tool_name = tn \<rparr>)"

definition enhanced_audit_message_callback ::
  "python_runtime \<Rightarrow> string \<Rightarrow> string \<Rightarrow> int \<Rightarrow> MCPMessageTrace \<Rightarrow> proxy_state \<Rightarrow> proxy_state" where
  "enhanced_audit_message_callback rt logger_name server_name server_process_id trace st =
     (case message_data_of server_name server_process_id trace of
        None \<Rightarrow>
          emit_log rt logger_name ERROR
            (''Error in enhanced audit callback: '' @
               no_attribute_get (dict_get (payload trace) ''params'')) st
      | Some m \<Rightarrow>
          emit_log rt logger_name INFO
            (antenna @ '' Enhanced audit ['' @ server_name @ '']: '' @
               direction_value (direction trace) @ '' - '' @
               method_or_response rt (payload trace))
            (st\<lparr> audit_file := audit_file st @ [m] \<rparr>))"

subsection \<open>Capture and the forwarding loops\<close>

text \<open>
  \<open>MCPProxy._capture_message(message, direction)\<close>. \<open>audit_callback\<close> is the optional
  callback given to the constructor, \<open>now\<close> the value of \<open>datetime.utcnow()\<close>. A text
  that does not parse is reported with \<open>logger.debug\<close>, below the level of the handler.
  A parsed value that is not a dict fails the validation of \<open>MCPMessageTrace\<close>, which is
  caught and reported with \<open>logger.error\<close>. After the callback the message is reported
  with \<open>logger.info\<close>. The result is always a state. The runner builds an
  \<open>EnhancedMCPProxy\<close>, whose override runs this method first and then logs further
  records of its own, which are left out.
\<close>

definition capture_message ::
  "python_runtime \<Rightarrow> (MCPMessageTrace \<Rightarrow> proxy_state \<Rightarrow> proxy_state) option
     \<Rightarrow> string \<Rightarrow> MCPMessageDirection \<Rightarrow> datetime \<Rightarrow> proxy_state \<Rightarrow> proxy_state" where
  "capture_message rt audit_callback message dir now st =
     (if strip message = [] then st
      else case json_loads rt message of
        None \<Rightarrow> emit_log rt proxy_logger DEBUG (''Non-JSON message: '' @ take 100 message @ ''...'') st
      | Some (JDict json_data) \<Rightarrow>
          (let trace = \<lparr> direction = dir, protocol = JSON_RPC, payload = json_data,
                         timestamp = now, latency_ms = None, error_code = None,
                         retry_attempt = None \<rparr>;
               st1 = st\<lparr> captured_messages := captured_messages st @ [trace],
                         message_counter := message_counter st + 1 \<rparr>;
               st2 = (case audit_callback of None \<Rightarrow> st1 | Some cb \<Rightarrow> cb trace st1)
           in emit_log rt proxy_logger INFO
                (antenna @ '' Captured '' @ direction_value dir @ '': '' @
                   method_or_response rt json_data) st2)
      | Some v \<Rightarrow>
          emit_log rt proxy_logger ERROR (''Error capturing message: '' @ validation_error rt v) st)"

text \<open>
  One pass through the body of a forwarding loop: the result of \<open>readline\<close> (\<open>''\<close> at
  end of file), the clock at capture, and what the write to the opposite endpoint does
  (\<open>None\<close>: it succeeds; \<open>Some e\<close>: it raises an exception with \<open>str(e) = e\<close>, for
  instance on a broken pipe).
\<close>

record io_step =
  line :: string
  now :: datetime
  write_error :: "string option"

definition write_ok :: "io_step \<Rightarrow> bool" where
  "write_ok s = (write_error s = None)"

text \<open>
  \<open>MCPProxy._forward_stdin_to_server\<close>: the list holds what the successive calls of
  \<open>sys.stdin.readline\<close> return. An exception leaves the loop and is reported with
  \<open>logger.error\<close>.
\<close>

fun forward_stdin_to_server ::
  "python_runtime \<Rightarrow> (MCPMessageTrace \<Rightarrow> proxy_state \<Rightarrow> proxy_state) option
     \<Rightarrow> proxy_state \<Rightarrow> io_step list \<Rightarrow> proxy_state" where
  "forward_stdin_to_server rt cb st [] = st"
| "forward_stdin_to_server rt cb st (s # rest) =
     (if line s = [] then st
      else
        let st1 = capture_message rt cb (strip (line s)) LLM_TO_MCP_CLIENT (now s) st
        in if server_stdin_open st1 then
             (case write_error s of
                None \<Rightarrow> forward_stdin_to_server rt cb
                          (st1\<lparr> server_stdin := server_stdin st1 @ line s \<rparr>) rest
              | Some e \<Rightarrow> emit_log rt proxy_logger ERROR (''Error forwarding stdin: '' @ e) st1)
           else forward_stdin_to_server rt cb st1 rest)"

text \<open>
  \<open>MCPProxy._forward_server_to_stdout\<close>, reading the child's stdout. When the write to
  \<open>sys.stdout\<close> raises, the record that \<open>logger.error\<close> then hands to the handler of the
  same stream is lost with it: \<open>logging\<close> reports the failure of a handler on stderr.
\<close>

fun forward_server_to_stdout ::
  "python_runtime \<Rightarrow> (MCPMessageTrace \<Rightarrow> proxy_state \<Rightarrow> proxy_state) option
     \<Rightarrow> proxy_state \<Rightarrow> io_step list \<Rightarrow> proxy_state" where
  "forward_server_to_stdout rt cb st [] = st"
| "forward_server_to_stdout rt cb st (s # rest) =
     (if \<not> server_stdout_open st then st
      else if line s = [] then st
      else
        let st1 = capture_message rt cb (strip (line s)) MCP_CLIENT_TO_SERVER (now s) st
        in case write_error s of
             None \<Rightarrow> forward_server_to_stdout rt cb
                       (st1\<lparr> host_stdout := host_stdout st1 @ line s \<rparr>) rest
           | Some e \<Rightarrow> st1)"

text \<open>
  \<open>MCPProxy._monitor_stderr\<close>: the list holds what the successive calls of
  \<open>server_process.stderr.readline\<close> return (\<open>''\<close> at end of file). Every line the
  child writes to its stderr is logged, as an error when it speaks of one and as a
  warning otherwise.
\<close>

fun monitor_stderr :: "python_runtime \<Rightarrow> proxy_state \<Rightarrow> string list \<Rightarrow> proxy_state" where
  "monitor_stderr rt st [] = st"
| "monitor_stderr rt st (l # rest) =
     (if \<not> server_stderr_open st then st
      else if l = [] then st
      else
        let stderr_msg = strip l
        in monitor_stderr rt
             (if stderr_msg \<noteq> [] then
                (if contains (lower stderr_msg) ''error'' \<or> contains (lower stderr_msg) ''failed''
                 then emit_log rt proxy_logger ERROR (''MCP Server Error: '' @ stderr_msg) st
                 else emit_log rt proxy_logger WARNING (''MCP Server stderr: '' @ stderr_msg) st)
              else st)
             rest)"

text \<open>The lines a loop reads before end of file.\<close>

definition lines_before_eof :: "io_step list \<Rightarrow> string list" where
  "lines_before_eof steps = map line (takeWhile (\<lambda>s. line s \<noteq> []) steps)"

subsection \<open>The text layer under readline\<close>

text \<open>
  \<open>Popen(..., text=True)\<close> opens the pipes of the child in text mode with universal
  newlines: \<open>server_process.stdout.readline\<close> cuts its lines from the child's output
  after every \<open>\r\n\<close> and every lone \<open>\r\<close> has been turned into \<open>\n\<close>. On a POSIX system
  nothing else is converted: \<open>sys.stdin\<close> and \<open>sys.stdout\<close> keep line endings as they
  are, and a \<open>\n\<close> written to the child's stdin stays \<open>\n\<close> (\<open>os.linesep\<close>). A stream is
  the list of its bytes and is taken to be valid text in the encoding of the locale, so
  that decoding and encoding cancel.
\<close>

fun universal_newlines :: "string \<Rightarrow> string" where
  "universal_newlines [] = []"
| "universal_newlines [c] = [if c = carriage_return then line_feed else c]"
| "universal_newlines (c # d # cs) =
     (if c = carriage_return then
        (if d = line_feed then line_feed # universal_newlines cs
         else line_feed # universal_newlines (d # cs))
      else c # universal_newlines (d # cs))"

text \<open>
  The successive results of \<open>readline\<close> on a text: each line with its \<open>\n\<close>, and a last
  line without one when the text does not end in \<open>\n\<close>.
\<close>

fun readlines_from :: "string \<Rightarrow> string \<Rightarrow> string list" where
  "readlines_from cur [] = (if cur = [] then [] else [cur])"
| "readlines_from cur (c # cs) =
     (if c = line_feed then (cur @ [c]) # readlines_from [] cs
      else readlines_from (cur @ [c]) cs)"

definition readlines :: "string \<Rightarrow> string list" where
  "readlines text = readlines_from [] text"

text \<open>
  The steps of a forwarding loop read the bytes \<open>sent\<close> by the endpoint: on the host
  path through \<open>sys.stdin\<close>, on the server path through the child's stdout pipe.
\<close>

definition host_stdin_reads :: "string \<Rightarrow> io_step list \<Rightarrow> bool" where
  "host_stdin_reads sent steps = (lines_before_eof steps = readlines sent)"

definition child_stdout_reads :: "string \<Rightarrow> io_step list \<Rightarrow> bool" where
  "child_stdout_reads sent steps =
     (lines_before_eof steps = readlines (universal_newlines sent))"

subsection \<open>Starting the proxy\<close>

text \<open>
  \<open>MCPProxy.__init__\<close>: no child yet and nothing captured. \<open>handler\<close> tells whether the
  runner has been loaded, and with it the handler on \<open>sys.stdout\<close>.
\<close>

definition new_proxy :: "bool \<Rightarrow> proxy_state" where
  "new_proxy handler =
     \<lparr> server_stdin_open = False, server_stdout_open = False, server_stderr_open = False,
        server_stdin = [], host_stdout = [], captured_messages = [], message_counter = 0,
        audit_file = [], stdout_handler = handler, log_records = 0 \<rparr>"

text \<open>\<open>' '.join(words)\<close>.\<close>

fun join_spaces :: "string list \<Rightarrow> string" where
  "join_spaces [] = []"
| "join_spaces [w] = w"
| "join_spaces (w # v # ws) = w @ '' '' @ join_spaces (v # ws)"

text \<open>
  \<open>MCPProxy.start_proxy_server\<close> up to the point where it starts the three loops, for a
  child that is still running a tenth of a second after \<open>Popen\<close>: the three pipes are
  there and the start has been reported with \<open>logger.info\<close>.
\<close>

definition start_proxy_server ::
  "python_runtime \<Rightarrow> string list \<Rightarrow> string \<Rightarrow> proxy_state \<Rightarrow> proxy_state" where
  "start_proxy_server rt target_server_cmd cwd st =
     emit_log rt proxy_logger INFO
       (''Started MCP server proxy: '' @ join_spaces target_server_cmd @
          '' (cwd: '' @ cwd @ '')'')
       (st\<lparr> server_stdin_open := True, server_stdout_open := True,
            server_stderr_open := True \<rparr>)"

subsection \<open>A sample run\<close>

text \<open>
  Sample wire traffic: a \<open>tools/call\<close> request with id 1 and its result. In the two
  literals a backquote stands for the double quote. \<open>sample_json_loads\<close> is
  \<open>json.loads\<close> on these two texts and fails elsewhere.
\<close>

definition dq :: "string \<Rightarrow> string" where
  "dq s = map (\<lambda>c. if c = CHR 0x60 then CHR 0x22 else c) s"

definition sample_request :: string where
  "sample_request = dq ''{`jsonrpc`:`2.0`,`id`:1,`method`:`tools/call`,`params`:{`name`:`get_weather`}}''"

definition sample_response :: string where
  "sample_response = dq ''{`jsonrpc`:`2.0`,`id`:1,`result`:{`temp`:15}}''"

definition sample_json_loads :: "string \<Rightarrow> json option" where
  "sample_json_loads s =
     (if s = sample_request then
        Some (JDict [(''jsonrpc'', JStr ''2.0''), (''id'', JInt 1),
                     (''method'', JStr ''tools/call''),
                     (''params'', JDict [(''name'', JStr ''get_weather'')])])
      else if s = sample_response then
        Some (JDict [(''jsonrpc'', JStr ''2.0''), (''id'', JInt 1),
                     (''result'', JDict [(''temp'', JInt 15)])])
      else None)"

text \<open>
  The sample runtime: the first three records are stamped one millisecond after noon,
  the later ones 120 ms after them. The two other texts are not needed on the samples.
\<close>

definition sample_asctime :: "nat \<Rightarrow> string" where
  "sample_asctime k =
     (if k < 3 then ''2025-01-01 12:00:00,001'' else ''2025-01-01 12:00:00,121'')"

definition sample_runtime :: python_runtime where
  "sample_runtime =
     \<lparr> json_loads = sample_json_loads, asctime = sample_asctime,
        format_value = (\<lambda>v. []), validation_error = (\<lambda>v. []) \<rparr>"

text \<open>
  A sample run: the host sends the request at time 0 and closes its stdin; the server
  answers 120 ms later and exits.
\<close>

definition sample_stdin_steps :: "io_step list" where
  "sample_stdin_steps =
     [\<lparr> line = sample_request @ [line_feed], now = 0, write_error = None \<rparr>,
      \<lparr> line = [], now = 200000, write_error = None \<rparr>]"

definition sample_stdout_steps :: "io_step list" where
  "sample_stdout_steps =
     [\<lparr> line = sample_response @ [line_feed], now = 120000, write_error = None \<rparr>,
      \<lparr> line = [], now = 200000, write_error = None \<rparr>]"

text \<open>
  The same response as a server writes it that ends its lines with \<open>\r\n\<close>: through the
  text layer the proxy reads it as the first step of \<open>sample_stdout_steps\<close>.
\<close>

definition crlf_response :: string where
  "crlf_response = sample_response @ [carriage_return, line_feed]"

text \<open>
  The proxy as the runner has it: the handler on stdout is installed, the callback is
  the one of the runner for the server \<open>weather\<close>, and the child \<open>weather-server\<close> has
  been started in \<open>/work\<close>. The records that \<open>main\<close> of the runner logs before it
  starts the proxy are left out.
\<close>

definition sample_callback ::
  "(MCPMessageTrace \<Rightarrow> proxy_state \<Rightarrow> proxy_state) option" where
  "sample_callback =
     Some (enhanced_audit_message_callback sample_runtime ''__main__'' ''weather'' 4242)"

definition initial_proxy :: proxy_state where
  "initial_proxy =
     start_proxy_server sample_runtime [''weather-server''] ''/work'' (new_proxy True)"

text \<open>\<open>sample_run\<close> is the proxy after both paths are done, the host path first.\<close>

definition sample_run :: proxy_state where
  "sample_run =
     forward_server_to_stdout sample_runtime sample_callback
       (forward_stdin_to_server sample_runtime sample_callback initial_proxy
          sample_stdin_steps)
       sample_stdout_steps"

text \<open>
  A callback that leaves the pipes and the logging set-up alone and, when no handler
  writes to stdout, the stdout of the proxy as well.
\<close>

definition quiet_callback :: "(MCPMessageTrace \<Rightarrow> proxy_state \<Rightarrow> proxy_state) option \<Rightarrow> bool" where
  "quiet_callback cb =
     (\<forall>f trace st. cb = Some f \<longrightarrow>
        server_stdin (f trace st) = server_stdin st \<and>
        server_stdin_open (f trace st) = server_stdin_open st \<and>
        server_stdout_open (f trace st) = server_stdout_open st \<and>
        stdout_handler (f trace st) = stdout_handler st \<and>
        (\<not> stdout_handler st \<longrightarrow> host_stdout (f trace st) = host_stdout st))"

text \<open>No captured trace and no line of the audit file carries a latency.\<close>

definition no_latency :: "proxy_state \<Rightarrow> bool" where
  "no_latency st =
     ((\<forall>t \<in> set (captured_messages st). latency_ms t = None) \<and>
      (\<forall>m \<in> set (audit_file st). md_latency_ms m = None))"

text \<open>
  The latency the specification asks for on a response: the timestamp delta to the
  matching request, in milliseconds.
\<close>

definition spec_latency_ms :: "message_data \<Rightarrow> message_data \<Rightarrow> int option" where
  "spec_latency_ms request response = Some ((md_timestamp response - md_timestamp request) div 1000)"

section \<open>The timeline correlator (tracing/timeline\_analyzer.py)\<close>

text \<open>
  A timeline event is a dictionary read from one of the two event files and tagged by its
  loader with \<open>source\<close> and \<open>parsed_timestamp\<close>. The record holds the keys the correlator
  reads, typed as the writers of the repository produce them; \<open>None\<close> is an absent key.
  \<open>ev_tool_name\<close> is \<open>enhanced_context.tool_name\<close>.
\<close>

record event =
  ev_source :: string
  parsed_timestamp :: datetime
  ev_server_name :: "string option"
  ev_direction :: "string option"
  ev_payload :: "pydict option"
  ev_tool_name :: json
  ev_user_prompt :: "string option"
  ev_llm_reasoning :: "string option"
  ev_tools_selected :: "string list"
  ev_success :: "bool option"

text \<open>Python truthiness of a JSON value.\<close>

fun truthy :: "json \<Rightarrow> bool" where
  "truthy JNull = False"
| "truthy (JBool b) = b"
| "truthy (JInt n) = (n \<noteq> 0)"
| "truthy (JFloat x) = (x \<noteq> 0)"
| "truthy (JStr s) = (s \<noteq> [])"
| "truthy (JList l) = (l \<noteq> [])"
| "truthy (JDict d) = (d \<noteq> [])"

text \<open>\<open>timedelta.total_seconds()\<close> of a difference given in microseconds.\<close>

definition total_seconds :: "int \<Rightarrow> real" where
  "total_seconds d = real_of_int d / 1000000"

definition time_gap_seconds :: "event \<Rightarrow> event \<Rightarrow> real" where
  "time_gap_seconds event1 event2 =
     total_seconds (parsed_timestamp event2 - parsed_timestamp event1)"

text \<open>\<open>event.get('direction', '')\<close> and \<open>event.get('payload', {})\<close>.\<close>

definition direction_of :: "event \<Rightarrow> string" where
  "direction_of e = (case ev_direction e of None \<Rightarrow> [] | Some d \<Rightarrow> d)"

definition payload_of :: "event \<Rightarrow> pydict" where
  "payload_of e = (case ev_payload e of None \<Rightarrow> [] | Some p \<Rightarrow> p)"

text \<open>
  \<open>payload.get('params', {})\<close>: \<open>None\<close> when the value is not a dict, where the
  \<open>.get\<close> that follows raises.
\<close>

definition params_of :: "pydict \<Rightarrow> pydict option" where
  "params_of p =
     (case map_of p ''params'' of
        None \<Rightarrow> Some []
      | Some (JDict ps) \<Rightarrow> Some ps
      | Some _ \<Rightarrow> None)"

text \<open>\<open>TimelineAnalyzer._determine_flow_success\<close>.\<close>

definition determine_flow_success :: "event list \<Rightarrow> bool" where
  "determine_flow_success flow_events =
     (let llm_success = list_ex (\<lambda>event. ev_source event = ''llm_decision'' \<and>
                           (case ev_success event of None \<Rightarrow> False | Some b \<Rightarrow> b)) flow_events;
          has_tool_call = list_ex (\<lambda>event.
                           ev_direction event = Some (direction_value LLM_TO_MCP_CLIENT) \<and>
                           dict_get (payload_of event) ''method'' = JStr ''tools/call'') flow_events;
          has_response = list_ex (\<lambda>event. contains (direction_of event) ''server'' \<and>
                           dict_get (payload_of event) ''result'' \<noteq> JNull) flow_events
      in llm_success \<or> (has_tool_call \<and> has_response))"

text \<open>\<open>TimelineAnalyzer._classify_event_type\<close>.\<close>

definition classify_event_type :: "event \<Rightarrow> string" where
  "classify_event_type event =
     (if ev_source event = ''llm_decision'' then
        (if contains (case ev_user_prompt event of None \<Rightarrow> [] | Some u \<Rightarrow> u) ''[Tool Discovery]''
         then ''llm_tool_discovery''
         else if ev_tools_selected event \<noteq> [] then ''llm_tool_selection''
         else ''llm_reasoning'')
      else
        let direction = direction_of event in
        if direction = direction_value USER_TO_LLM then ''user_prompt''
        else if direction = direction_value LLM_TO_MCP_CLIENT then
          (let method = dict_get (payload_of event) ''method'' in
           if method = JStr ''tools/call'' then ''tool_call''
           else if method = JStr ''initialize'' then ''initialization''
           else ''llm_request'')
        else if contains direction ''server'' then ''mcp_response''
        else ''other'')"

text \<open>
  \<open>TimelineAnalyzer._extract_event_content\<close>. The two formatted results are kept
  unformatted: \<open>Selected tools r\<close> is \<open>f"Selected {', '.join(tools)}: {r}..."\<close> and
  \<open>Call v\<close> is \<open>f"Call {v}"\<close>; \<open>Plain v\<close> is a value returned as it is. The result is
  \<open>None\<close> where the Python raises: \<open>len\<close> of a content that has no length, a slice of a
  long list or dict, \<open>params\<close> that is not a dict.
\<close>

datatype content = Plain json | Selected "string list" string | Call json

definition truncate100 :: "string \<Rightarrow> string" where
  "truncate100 s = (if length s > 100 then take 100 s @ ''...'' else s)"

definition extract_event_content :: "event \<Rightarrow> content option" where
  "extract_event_content event =
     (if ev_source event = ''llm_decision'' then
        (let reasoning = (case ev_llm_reasoning event of None \<Rightarrow> [] | Some r \<Rightarrow> r);
             tools = ev_tools_selected event
         in if tools \<noteq> [] then Some (Selected tools (take 100 reasoning))
            else Some (Plain (JStr (truncate100 reasoning))))
      else
        let direction = direction_of event; payload = payload_of event in
        if direction = direction_value USER_TO_LLM then
          (case map_of payload ''content'' of
             None \<Rightarrow> Some (Plain (JStr []))
           | Some (JStr c) \<Rightarrow> Some (Plain (JStr (truncate100 c)))
           | Some (JList l) \<Rightarrow> (if length l > 100 then None else Some (Plain (JList l)))
           | Some (JDict d) \<Rightarrow> (if length d > 100 then None else Some (Plain (JDict d)))
           | Some _ \<Rightarrow> None)
        else if direction = direction_value LLM_TO_MCP_CLIENT then
          (let method = dict_get payload ''method'' in
           if method = JStr ''tools/call'' then
             (case params_of payload of
                None \<Rightarrow> None
              | Some ps \<Rightarrow> Some (Call (dict_get ps ''name'')))
           else Some (Plain (if truthy method then method else JStr ''Unknown request'')))
        else Some (Plain (case map_of payload ''method'' of
                            None \<Rightarrow> JStr ''Response'' | Some m \<Rightarrow> m)))"

text \<open>An entry of \<open>mcp_calls\<close> and an entry of \<open>timeline\<close> in a flow summary.\<close>

record mcp_call =
  call_timestamp :: datetime
  call_server :: string
  call_tool :: json
  call_args :: json

record timeline_entry =
  tl_timestamp :: datetime
  tl_type :: string
  tl_source :: string
  tl_server :: string
  tl_content :: content

text \<open>
  The flow summary built by \<open>_create_flow_summary\<close>. Left out: \<open>flow_id\<close> and
  \<open>llm_decisions\<close>, which nothing modelled here reads. \<open>servers_involved\<close> is a Python
  set turned into a list, whose order is unspecified; the model keeps first occurrences.
  \<open>JNull\<close> is Python's \<open>None\<close>.
\<close>

record flow =
  flow_start_time :: datetime
  flow_end_time :: datetime
  duration_ms :: real
  event_count :: nat
  servers_involved :: "string list"
  cross_server_flow :: bool
  has_user_context :: bool
  flow_user_prompt :: json
  user_timestamp :: "datetime option"
  flow_llm_reasoning :: json
  mcp_calls :: "mcp_call list"
  flow_success :: bool
  timeline :: "timeline_entry list"

text \<open>The variables the loop over the events of a flow updates.\<close>

record summary_vars =
  sv_user_prompt :: json
  sv_user_timestamp :: "datetime option"
  sv_llm_reasoning :: json
  sv_mcp_calls :: "mcp_call list"
  sv_servers_involved :: "string list"

definition summary_step :: "event \<Rightarrow> summary_vars \<Rightarrow> summary_vars option" where
  "summary_step event v =
     (if ev_source event = ''llm_decision'' then
        (case ev_user_prompt event of
           Some u \<Rightarrow>
             (if \<not> truthy (sv_user_prompt v) \<and> u \<noteq> [] then
                Some (v\<lparr> sv_user_prompt := JStr u,
                         sv_user_timestamp := Some (parsed_timestamp event),
                         sv_llm_reasoning :=
                           JStr (case ev_llm_reasoning event of None \<Rightarrow> [] | Some r \<Rightarrow> r) \<rparr>)
              else Some v)
         | None \<Rightarrow> Some v)
      else if ev_source event = ''mcp_audit'' then
        (let server_name = (case ev_server_name event of None \<Rightarrow> ''unknown'' | Some n \<Rightarrow> n);
             v1 = v\<lparr> sv_servers_involved :=
                       (if server_name \<in> set (sv_servers_involved v) then sv_servers_involved v
                        else sv_servers_involved v @ [server_name]) \<rparr>
         in if ev_direction event = Some (direction_value USER_TO_LLM) then
              (if \<not> truthy (sv_user_prompt v1) then
                 Some (v1\<lparr> sv_user_prompt := dict_get (payload_of event) ''content'',
                           sv_user_timestamp := Some (parsed_timestamp event) \<rparr>)
               else Some v1)
            else if ev_direction event = Some (direction_value LLM_TO_MCP_CLIENT) \<and>
                    dict_get (payload_of event) ''method'' = JStr ''tools/call'' then
              (case params_of (payload_of event) of
                 None \<Rightarrow> None
               | Some ps \<Rightarrow>
                   Some (v1\<lparr> sv_mcp_calls := sv_mcp_calls v1 @
                          [\<lparr> call_timestamp = parsed_timestamp event,
                              call_server = server_name,
                              call_tool = ev_tool_name event,
                              call_args = (case map_of ps ''arguments'' of
                                             None \<Rightarrow> JDict [] | Some a \<Rightarrow> a) \<rparr>] \<rparr>))
            else Some v1)
      else Some v)"

fun summary_loop :: "event list \<Rightarrow> summary_vars \<Rightarrow> summary_vars option" where
  "summary_loop [] v = Some v"
| "summary_loop (event # rest) v =
     (case summary_step event v of None \<Rightarrow> None | Some v1 \<Rightarrow> summary_loop rest v1)"

text \<open>The list comprehension that builds \<open>timeline\<close>.\<close>

fun build_timeline :: "event list \<Rightarrow> timeline_entry list option" where
  "build_timeline [] = Some []"
| "build_timeline (event # rest) =
     (case extract_event_content event of
        None \<Rightarrow> None
      | Some c \<Rightarrow>
          (case build_timeline rest of
             None \<Rightarrow> None
           | Some entries \<Rightarrow>
               Some (\<lparr> tl_timestamp = parsed_timestamp event,
                        tl_type = classify_event_type event,
                        tl_source = ev_source event,
                        tl_server = (case ev_server_name event of None \<Rightarrow> ''N/A'' | Some n \<Rightarrow> n),
                        tl_content = c \<rparr> # entries)))"

text \<open>
  \<open>TimelineAnalyzer._create_flow_summary\<close>, for a flow that is not empty (the caller
  never passes an empty one). \<open>None\<close>: an exception escapes.
\<close>

definition create_flow_summary :: "event list \<Rightarrow> flow option" where
  "create_flow_summary flow_events =
     (let start_time = parsed_timestamp (hd flow_events);
          end_time = parsed_timestamp (last flow_events);
          duration = total_seconds (end_time - start_time) * 1000
      in case summary_loop flow_events
                \<lparr> sv_user_prompt = JNull, sv_user_timestamp = None, sv_llm_reasoning = JNull,
                   sv_mcp_calls = [], sv_servers_involved = [] \<rparr> of
           None \<Rightarrow> None
         | Some v \<Rightarrow>
             (case build_timeline flow_events of
                None \<Rightarrow> None
              | Some entries \<Rightarrow>
                  Some \<lparr> flow_start_time = start_time,
                         flow_end_time = end_time,
                         duration_ms = duration,
                         event_count = length flow_events,
                         servers_involved = sv_servers_involved v,
                         cross_server_flow = (length (sv_servers_involved v) > 1),
                         has_user_context = (sv_user_prompt v \<noteq> JNull),
                         flow_user_prompt = sv_user_prompt v,
                         user_timestamp = sv_user_timestamp v,
                         flow_llm_reasoning = sv_llm_reasoning v,
                         mcp_calls = sv_mcp_calls v,
                         flow_success = determine_flow_success flow_events,
                         timeline = entries \<rparr>))"

text \<open>
  \<open>TimelineAnalyzer.group_into_flows\<close>: the loop over the events with its two variables
  \<open>current_flow\<close> and \<open>flows\<close>, then the closing of the last flow. \<open>None\<close>: a summary
  raised.
\<close>

definition append_summary :: "flow list \<Rightarrow> event list \<Rightarrow> flow list option" where
  "append_summary flows current_flow =
     (if current_flow \<noteq> [] then
        (case create_flow_summary current_flow of
           None \<Rightarrow> None
         | Some f \<Rightarrow> Some (flows @ [f]))
      else Some flows)"

fun group_loop :: "int \<Rightarrow> event list \<Rightarrow> event list \<Rightarrow> flow list \<Rightarrow> flow list option" where
  "group_loop time_window_seconds [] current_flow flows = append_summary flows current_flow"
| "group_loop time_window_seconds (event # rest) current_flow flows =
     (if current_flow = [] \<or>
         time_gap_seconds (last current_flow) event > real_of_int time_window_seconds
      then (case append_summary flows current_flow of
              None \<Rightarrow> None
            | Some flows1 \<Rightarrow> group_loop time_window_seconds rest [event] flows1)
      else group_loop time_window_seconds rest (current_flow @ [event]) flows)"

definition group_into_flows :: "int \<Rightarrow> event list \<Rightarrow> flow list option" where
  "group_into_flows time_window_seconds timeline_events =
     (if timeline_events = [] then Some []
      else group_loop time_window_seconds timeline_events [] [])"

text \<open>The timestamps of the events of a flow, read off its timeline.\<close>

definition flow_times :: "flow \<Rightarrow> datetime list" where
  "flow_times f = map tl_timestamp (timeline f)"

text \<open>
  The grouping itself, without the summaries: the runs of events the loop closes. Used
  to state what the flows of \<open>group_into_flows\<close> are made of.
\<close>

fun event_groups :: "int \<Rightarrow> event list \<Rightarrow> event list \<Rightarrow> event list list" where
  "event_groups w [] current_flow = (if current_flow \<noteq> [] then [current_flow] else [])"
| "event_groups w (event # rest) current_flow =
     (if current_flow = [] \<or> time_gap_seconds (last current_flow) event > real_of_int w
      then (if current_flow \<noteq> [] then [current_flow] else []) @ event_groups w rest [event]
      else event_groups w rest (current_flow @ [event]))"

text \<open>
  What \<open>load_messages\<close> makes of one line of the audit file: the keys of the line, the
  parsed timestamp and the tag \<open>source = 'mcp_audit'\<close>.
\<close>

definition event_of_message :: "message_data \<Rightarrow> event" where
  "event_of_message m =
     \<lparr> ev_source = ''mcp_audit'',
        parsed_timestamp = md_timestamp m,
        ev_server_name = Some (md_server_name m),
        ev_direction = Some (md_direction m),
        ev_payload = Some (md_payload m),
        ev_tool_name = md_tool_name m,
        ev_user_prompt = None,
        ev_llm_reasoning = None,
        ev_tools_selected = [],
        ev_success = None \<rparr>"

text \<open>
  The events the correlator loads for a message the proxy captured on a path at a time:
  the audit callback writes the line it builds (\<open>message_data_of\<close>), the loader reads
  it back.
\<close>

definition captured_event :: "string \<Rightarrow> datetime \<Rightarrow> MCPMessageDirection \<Rightarrow> pydict \<Rightarrow> event list" where
  "captured_event server t dir p =
     map event_of_message
       (case message_data_of server 4242
               \<lparr> direction = dir, protocol = JSON_RPC, payload = p, timestamp = t,
                  latency_ms = None, error_code = None, retry_attempt = None \<rparr> of
          None \<Rightarrow> []
        | Some m \<Rightarrow> [m])"

text \<open>
  Two tool calls a minute apart: a call at time 0, its result 50 ms later, and a second
  call at 60 s.
\<close>

definition pause_events :: "event list" where
  "pause_events =
     captured_event ''weather'' 0 LLM_TO_MCP_CLIENT
       [(''id'', JInt 1), (''method'', JStr ''tools/call''),
        (''params'', JDict [(''name'', JStr ''get_weather'')])] @
     captured_event ''weather'' 50000 MCP_CLIENT_TO_SERVER
       [(''id'', JInt 1), (''result'', JDict [(''temp'', JInt 15)])] @
     captured_event ''weather'' 60000000 LLM_TO_MCP_CLIENT
       [(''id'', JInt 2), (''method'', JStr ''tools/call''),
        (''params'', JDict [(''name'', JStr ''get_weather'')])]"

text \<open>
  A tool call that fails: the host lists the tools (request 1, answered with a result),
  then calls a tool (request 2), and the server answers request 2 with an error.
\<close>

definition failed_call_events :: "event list" where
  "failed_call_events =
     captured_event ''weather'' 0 LLM_TO_MCP_CLIENT
       [(''id'', JInt 1), (''method'', JStr ''tools/list'')] @
     captured_event ''weather'' 10000 MCP_CLIENT_TO_SERVER
       [(''id'', JInt 1), (''result'', JDict [(''tools'', JList [])])] @
     captured_event ''weather'' 20000 LLM_TO_MCP_CLIENT
       [(''id'', JInt 2), (''method'', JStr ''tools/call''),
        (''params'', JDict [(''name'', JStr ''get_weather'')])] @
     captured_event ''weather'' 70000 MCP_CLIENT_TO_SERVER
       [(''id'', JInt 2), (''error'', JDict [(''code'', JInt (- 32001)), (''message'', JStr ''401'')])]"

text \<open>
  The rule of the specification for a flow's success, in its words: some LLM decision of
  the flow has \<open>success = true\<close>, or the flow holds a \<open>tools/call\<close> request together with
  a response to that request (the same \<open>id\<close>, sent by the server) that carries a result
  and no error.
\<close>

definition is_tool_call_request :: "event \<Rightarrow> bool" where
  "is_tool_call_request e =
     (ev_direction e = Some (direction_value LLM_TO_MCP_CLIENT) \<and>
      dict_get (payload_of e) ''method'' = JStr ''tools/call'')"

definition is_result_response_to :: "event \<Rightarrow> event \<Rightarrow> bool" where
  "is_result_response_to request response =
     (contains (direction_of response) ''server'' \<and>
      map_of (payload_of request) ''id'' \<noteq> None \<and>
      map_of (payload_of response) ''id'' = map_of (payload_of request) ''id'' \<and>
      map_of (payload_of response) ''error'' = None \<and>
      dict_get (payload_of response) ''result'' \<noteq> JNull)"

definition spec_flow_success :: "event list \<Rightarrow> bool" where
  "spec_flow_success flow_events =
     (list_ex (\<lambda>e. ev_source e = ''llm_decision'' \<and> ev_success e = Some True) flow_events \<or>
      list_ex (\<lambda>request. is_tool_call_request request \<and>
                 list_ex (is_result_response_to request) flow_events) flow_events)"

text \<open>
  Consecutive timestamps of one flow are at most \<open>w\<close> seconds apart; the last timestamp
  of a flow and the first of the next are more than \<open>w\<close> seconds apart.
\<close>

fun gaps_within :: "real \<Rightarrow> datetime list \<Rightarrow> bool" where
  "gaps_within w (t1 # t2 # ts) = (total_seconds (t2 - t1) \<le> w \<and> gaps_within w (t2 # ts))"
| "gaps_within w _ = True"

fun gaps_between :: "real \<Rightarrow> datetime list list \<Rightarrow> bool" where
  "gaps_between w (g1 # g2 # gs) =
     (total_seconds (hd g2 - last g1) > w \<and> gaps_between w (g2 # gs))"
| "gaps_between w _ = True"

text \<open>An event on which neither the summary loop nor the timeline raises.\<close>

definition summarisable :: "event \<Rightarrow> bool" where
  "summarisable e = (params_of (payload_of e) \<noteq> None \<and> extract_event_content e \<noteq> None)"

section \<open>The config rewriter (interceptors/mcp\_proxy.py, class MCPProxyManager)\<close>

text \<open>
  One entry of \<open>mcpServers\<close> and the host's configuration file, as parsed JSON. \<open>None\<close>
  is an absent key. \<open>other_keys\<close> are the top-level keys besides \<open>mcpServers\<close>. A file
  is modelled by the configuration it holds, not by its text.
\<close>

record server_config =
  command :: "string option"
  args :: "string list option"
  cwd :: "string option"
  env :: "(string \<times> string) list option"

record mcp_config =
  mcpServers :: "(string \<times> server_config) list option"
  other_keys :: pydict

text \<open>
  What the rewriter sees of the machine: whether \<open>.venv/bin/python\<close> exists under the
  current directory, what \<open>shutil.which\<close> finds, and \<open>Path.cwd()\<close>.
\<close>

record host_env =
  venv_python_exists :: bool
  which_python3 :: bool
  which_python :: bool
  current_dir :: string

text \<open>
  The two configuration files (\<open>.cursor/mcp.json\<close> under the current directory and
  under the home directory; \<open>None\<close>: the file does not exist) and the manager's field
  \<open>original_config\<close>.
\<close>

record rewriter_state =
  project_file :: "mcp_config option"
  home_file :: "mcp_config option"
  original_config :: "mcp_config option"

definition proxy_runner_module :: string where
  "proxy_runner_module = ''mcp_audit.interceptors.mcp_proxy_runner''"

text \<open>\<open>MCPProxyManager._is_already_proxied\<close>.\<close>

definition is_python_command :: "string \<Rightarrow> bool" where
  "is_python_command c =
     (c = ''python'' \<or> endswith c ''/bin/python'' \<or> endswith c ''/bin/python3'')"

definition is_already_proxied :: "server_config \<Rightarrow> bool" where
  "is_already_proxied sc =
     (let as = (case args sc of None \<Rightarrow> [] | Some a \<Rightarrow> a);
          c = (case command sc of None \<Rightarrow> [] | Some c \<Rightarrow> c)
      in is_python_command c \<and>
         length as > 0 \<and> as ! 0 = ''-m'' \<and>
         length as > 1 \<and> as ! 1 = proxy_runner_module)"

text \<open>The interpreter \<open>_create_proxy_config\<close> chooses.\<close>

definition python_cmd :: "host_env \<Rightarrow> string" where
  "python_cmd e =
     (if venv_python_exists e then
        (if current_dir e = ''/'' then ''/.venv/bin/python''
         else current_dir e @ ''/.venv/bin/python'')
      else if which_python3 e then ''python3''
      else if which_python e then ''python''
      else ''python3'')"

text \<open>\<open>d[k] = v\<close> on a dict kept as an association list.\<close>

fun dict_set :: "string \<Rightarrow> 'v \<Rightarrow> (string \<times> 'v) list \<Rightarrow> (string \<times> 'v) list" where
  "dict_set k v [] = [(k, v)]"
| "dict_set k v ((k', v') # d) = (if k' = k then (k, v) # d else (k', v') # dict_set k v d)"

text \<open>
  \<open>MCPProxyManager._create_proxy_config\<close>, given the loaded \<open>original_config\<close>.
  \<open>None\<close>: the \<open>ValueError\<close> raised when the loaded configuration is falsy (no file
  loaded, or an empty dict).
\<close>

definition proxy_entry :: "host_env \<Rightarrow> string \<Rightarrow> server_config \<Rightarrow> server_config" where
  "proxy_entry e server_name original_server =
     (let original_args = (case args original_server of None \<Rightarrow> [] | Some a \<Rightarrow> a);
          proxy_args = [''-m'', proxy_runner_module,
                        ''--target-command'',
                        (case command original_server of None \<Rightarrow> [] | Some c \<Rightarrow> c),
                        ''--target-args''] @ original_args;
          original_cwd = (case cwd original_server of None \<Rightarrow> current_dir e | Some d \<Rightarrow> d)
      in \<lparr> command = Some (python_cmd e),
            args = Some proxy_args,
            cwd = Some original_cwd,
            env = Some [(''MCP_TARGET_CWD'', original_cwd), (''MCP_SERVER_NAME'', server_name)] \<rparr>)"

definition create_proxy_config :: "host_env \<Rightarrow> string \<Rightarrow> mcp_config option \<Rightarrow> mcp_config option" where
  "create_proxy_config e server_name loaded =
     (case loaded of
        None \<Rightarrow> None
      | Some config \<Rightarrow>
          if mcpServers config = None \<and> other_keys config = [] then None
          else
            (case mcpServers config of
               None \<Rightarrow> Some config
             | Some servers \<Rightarrow>
                 (case map_of servers server_name of
                    None \<Rightarrow> Some config
                  | Some original_server \<Rightarrow>
                      if is_already_proxied original_server then Some config
                      else Some (config\<lparr> mcpServers :=
                             Some (dict_set server_name
                                     (proxy_entry e server_name original_server) servers) \<rparr>))))"

text \<open>
  \<open>MCPProxyManager.setup_proxy_for_server\<close>: the value returned and the state left.
  Every exception is caught and turns into \<open>False\<close>. \<open>proxy_config\<close> is a shallow copy
  of \<open>original_config\<close> and the rewrite assigns into the \<open>mcpServers\<close> dict the two
  share, so after a successful call \<open>original_config\<close> equals what was written.
\<close>

definition setup_proxy_for_server ::
  "host_env \<Rightarrow> string \<Rightarrow> rewriter_state \<Rightarrow> bool \<times> rewriter_state" where
  "setup_proxy_for_server e server_name st =
     (let use_project = (project_file st \<noteq> None);
          config_file = (if use_project then project_file st else home_file st)
      in case config_file of
           None \<Rightarrow> (False, st)
         | Some loaded \<Rightarrow>
             (case create_proxy_config e server_name (Some loaded) of
                None \<Rightarrow> (False, st\<lparr> original_config := Some loaded \<rparr>)
              | Some proxy_config \<Rightarrow>
                  (True,
                   if use_project
                   then st\<lparr> original_config := Some proxy_config,
                            project_file := Some proxy_config \<rparr>
                   else st\<lparr> original_config := Some proxy_config,
                            home_file := Some proxy_config \<rparr>)))"

text \<open>
  A host with a virtual environment in \<open>/work\<close>, a host with only \<open>python\<close> on the
  path, and a configuration with one plain server.
\<close>

definition venv_host :: host_env where
  "venv_host = \<lparr> venv_python_exists = True, which_python3 = True, which_python = True,
                   current_dir = ''/work'' \<rparr>"

definition python_host :: host_env where
  "python_host = \<lparr> venv_python_exists = False, which_python3 = False, which_python = True,
                     current_dir = ''/work'' \<rparr>"

definition plain_config :: mcp_config where
  "plain_config =
     \<lparr> mcpServers = Some [(''mastra'',
          \<lparr> command = Some ''npx'', args = Some [''-y'', ''mastra-server''],
             cwd = None, env = None \<rparr>)],
        other_keys = [] \<rparr>"

definition fresh_state :: rewriter_state where
  "fresh_state = \<lparr> project_file = Some plain_config, home_file = None, original_config = None \<rparr>"

section \<open>Unwrapping nested proxies (utils/fix\_recursive\_config.py)\<close>

text \<open>\<open>xs.index(x)\<close>; \<open>None\<close> is the \<open>ValueError\<close>.\<close>

fun index_of :: "string list \<Rightarrow> string \<Rightarrow> nat option" where
  "index_of [] x = None"
| "index_of (y # ys) x = (if y = x then Some 0 else map_option Suc (index_of ys x))"

lemma index_of_less: "index_of xs x = Some i \<Longrightarrow> i < length xs"
  by (induction xs arbitrary: i) (auto split: if_splits)

definition starts_with_runner :: "string list \<Rightarrow> bool" where
  "starts_with_runner current_args =
     (length current_args \<ge> 2 \<and> current_args ! 0 = ''-m'' \<and>
      current_args ! 1 = proxy_runner_module)"

text \<open>
  \<open>extract_original_from_proxy_args\<close>: the loop with its variables \<open>current_args\<close> and
  \<open>depth\<close>. The result is \<open>(original_command, original_args, depth)\<close>, with \<open>None\<close>
  for Python's \<open>None\<close>.
\<close>

function unwrap_loop :: "string list \<Rightarrow> nat \<Rightarrow> string option \<times> string list option \<times> nat" where
  "unwrap_loop current_args depth =
     (if starts_with_runner current_args then
        (case index_of current_args ''--target-command'' of
           None \<Rightarrow> (None, None, depth + 1)
         | Some target_cmd_idx \<Rightarrow>
             (case index_of current_args ''--target-args'' of
                None \<Rightarrow> (None, None, depth + 1)
              | Some target_args_idx \<Rightarrow>
                  if target_cmd_idx + 1 \<ge> length current_args then (None, None, depth + 1)
                  else
                    let original_command = current_args ! (target_cmd_idx + 1);
                        original_args = drop (target_args_idx + 1) current_args
                    in if original_command = ''python'' \<and> length original_args \<ge> 2
                       then unwrap_loop original_args (depth + 1)
                       else (Some original_command, Some original_args, depth + 1)))
      else
        ((if current_args \<noteq> [] then Some (hd current_args) else None),
         Some (if length current_args > 1 then tl current_args else []),
         depth))"
  by pat_completeness auto
termination
  by (relation "measure (\<lambda>(current_args, depth). length current_args)")
     (auto dest: index_of_less)

definition extract_original_from_proxy_args ::
  "string list \<Rightarrow> string option \<times> string list option \<times> nat" where
  "extract_original_from_proxy_args as = unwrap_loop as 0"

text \<open>
  \<open>detect_recursive_config\<close>: the first entry that is a proxy decides. The key
  \<open>server_name\<close> of the result is the field \<open>detected_server\<close>.
\<close>

record detection =
  is_recursive :: bool
  recursion_depth :: nat
  original_command :: "string option"
  original_args :: "string list option"
  detected_server :: "string option"

fun detect_loop :: "(string \<times> server_config) list \<Rightarrow> detection \<Rightarrow> detection" where
  "detect_loop [] results = results"
| "detect_loop ((name, server) # rest) results =
     (let c = (case command server of None \<Rightarrow> [] | Some c \<Rightarrow> c);
          as = (case args server of None \<Rightarrow> [] | Some a \<Rightarrow> a)
      in if c = ''python'' \<and> length as \<ge> 2 \<and> as ! 0 = ''-m'' \<and> as ! 1 = proxy_runner_module
         then (case extract_original_from_proxy_args as of
                 (oc, oa, depth) \<Rightarrow>
                   \<lparr> is_recursive = True, recursion_depth = depth, original_command = oc,
                      original_args = oa, detected_server = Some name \<rparr>)
         else detect_loop rest results)"

definition detect_recursive_config :: "mcp_config \<Rightarrow> detection" where
  "detect_recursive_config config =
     (let results = \<lparr> is_recursive = False, recursion_depth = 0, original_command = None,
                       original_args = None, detected_server = None \<rparr>
      in case mcpServers config of
           None \<Rightarrow> results
         | Some servers \<Rightarrow> detect_loop servers results)"

text \<open>A server started as \<open>python server.py --port\<close>, before any proxy is installed.\<close>

definition python_server_config :: mcp_config where
  "python_server_config =
     \<lparr> mcpServers = Some [(''srv'',
          \<lparr> command = Some ''python'', args = Some [''server.py'', ''--port''],
             cwd = None, env = None \<rparr>)],
        other_keys = [] \<rparr>"

text \<open>
  The \<open>args\<close> the rewriter writes for a target command, and the \<open>args\<close> after
  \<open>k + 1\<close> installs on a host whose interpreter is \<open>python\<close>.
\<close>

definition proxy_args_of :: "string \<Rightarrow> string list \<Rightarrow> string list" where
  "proxy_args_of c as =
     [''-m'', proxy_runner_module, ''--target-command'', c, ''--target-args''] @ as"

fun nested_proxy_args :: "nat \<Rightarrow> string \<Rightarrow> string list \<Rightarrow> string list" where
  "nested_proxy_args 0 c as = proxy_args_of c as"
| "nested_proxy_args (Suc k) c as = proxy_args_of ''python'' (nested_proxy_args k c as)"

text \<open>A host with \<open>python3\<close> on the path and no virtual environment.\<close>

definition python3_host :: host_env where
  "python3_host = \<lparr> venv_python_exists = False, which_python3 = True, which_python = True,
                      current_dir = ''/work'' \<rparr>"

text \<open>The configuration and the state after one install on the host with a virtual environment.\<close>

definition proxied_config :: mcp_config where
  "proxied_config =
     \<lparr> mcpServers = Some [(''mastra'',
          \<lparr> command = Some ''/work/.venv/bin/python'',
             args = Some [''-m'', proxy_runner_module, ''--target-command'', ''npx'',
                          ''--target-args'', ''-y'', ''mastra-server''],
             cwd = Some ''/work'',
             env = Some [(''MCP_TARGET_CWD'', ''/work''), (''MCP_SERVER_NAME'', ''mastra'')] \<rparr>)],
        other_keys = [] \<rparr>"

definition proxied_state :: rewriter_state where
  "proxied_state =
     \<lparr> project_file = Some proxied_config, home_file = None,
        original_config = Some proxied_config \<rparr>"

section \<open>The cognitive scorer (analyzers/cognitive\_analyzer.py)\<close>

text \<open>
  \<open>MCPInteraction\<close>, without \<open>session_id\<close>, \<open>user_context\<close> and
  \<open>conversation_context\<close>, which the scorer does not read. Scores are Python floats;
  they are modelled as reals, so the arithmetic is exact.
\<close>

record MCPInteraction =
  server_name :: string
  user_query :: string
  start_time :: datetime
  end_time :: "datetime option"
  message_traces :: "MCPMessageTrace list"
  success :: bool
  total_latency_ms :: "int option"
  retry_count :: int

definition baseline_latency_ms :: int where
  "baseline_latency_ms = 15000"

definition technical_indicators :: "string list" where
  "technical_indicators =
     [''api'', ''config'', ''authentication'', ''parameter'', ''endpoint'', ''json'', ''xml'',
      ''database'', ''query'', ''schema'', ''token'', ''oauth'', ''webhook'', ''integration'',
      ''middleware'', ''proxy'', ''cache'', ''sync'', ''async'', ''batch'', ''stream'']"

definition complexity_indicators :: "string list" where
  "complexity_indicators =
     [''if'', ''when'', ''unless'', ''where'', ''filter'', ''sort'', ''group'', ''aggregate'',
      ''combine'', ''merge'', ''transform'', ''convert'', ''validate'', ''parse'']"

definition action_verbs :: "string list" where
  "action_verbs =
     [''create'', ''update'', ''delete'', ''get'', ''set'', ''add'', ''remove'', ''modify'',
      ''send'', ''receive'', ''upload'', ''download'', ''import'', ''export'', ''backup'',
      ''restore'', ''sync'', ''copy'', ''move'', ''rename'', ''list'', ''search'', ''find'']"

definition time_words :: "string list" where
  "time_words =
     [''today'', ''tomorrow'', ''yesterday'', ''week'', ''month'', ''year'', ''hour'',
      ''minute'', ''day'', ''now'', ''later'', ''before'', ''after'', ''since'', ''until'']"

definition quantifier_words :: "string list" where
  "quantifier_words = [''all'', ''every'', ''each'', ''most'', ''some'', ''many'', ''few'']"

text \<open>\<open>sum(1 for term in terms if term in query)\<close>.\<close>

definition count_hits :: "string list \<Rightarrow> string \<Rightarrow> nat" where
  "count_hits terms query = length (filter (contains query) terms)"

text \<open>The test for an inferred or placeholder prompt, on the lower-cased query.\<close>

definition is_placeholder :: "string \<Rightarrow> bool" where
  "is_placeholder query =
     (contains query ''[inferred]'' \<or> contains query ''user request requiring'' \<or>
      contains query ''unknown'' \<or> length (strip query) < 3)"

text \<open>\<open>CognitiveAnalyzer._calculate_prompt_complexity\<close>.\<close>

definition calculate_prompt_complexity :: "MCPInteraction \<Rightarrow> real" where
  "calculate_prompt_complexity interaction =
     (let query = lower (user_query interaction) in
      if is_placeholder query then 20
      else
        let complexity_score = 20;
            word_count = length (split query);
            complexity_score =
              (if word_count > 10 then complexity_score + 25
               else if word_count > 5 then complexity_score + 15
               else if word_count > 2 then complexity_score + 5
               else complexity_score);
            technical_count = count_hits technical_indicators query;
            complexity_score = complexity_score + real technical_count * 8;
            logic_count = count_hits complexity_indicators query;
            complexity_score = complexity_score + real logic_count * 10;
            action_count = count_hits action_verbs query;
            complexity_score =
              (if action_count > 2 then complexity_score + real (action_count - 1) * 12
               else complexity_score);
            complexity_score =
              (if list_ex (contains query) time_words then complexity_score + 15
               else complexity_score);
            complexity_score =
              (if list_ex is_digit query \<or> list_ex (contains query) quantifier_words
               then complexity_score + 10
               else complexity_score)
        in min complexity_score 100)"

text \<open>
  \<open>CognitiveAnalyzer._calculate_context_switching\<close>: the two loops, each with the
  variable it carries (\<open>last_direction\<close>, \<open>last_method\<close>) and its counter.
\<close>

fun count_direction_changes ::
  "MCPMessageTrace list \<Rightarrow> MCPMessageDirection option \<Rightarrow> nat \<Rightarrow> nat" where
  "count_direction_changes [] last_direction direction_changes = direction_changes"
| "count_direction_changes (message # rest) last_direction direction_changes =
     count_direction_changes rest (Some (direction message))
       (case last_direction of
          None \<Rightarrow> direction_changes
        | Some d \<Rightarrow> if direction message \<noteq> d then direction_changes + 1 else direction_changes)"

fun count_tool_changes :: "MCPMessageTrace list \<Rightarrow> json \<Rightarrow> nat \<Rightarrow> nat" where
  "count_tool_changes [] last_method tool_changes = tool_changes"
| "count_tool_changes (message # rest) last_method tool_changes =
     (let current_method = dict_get (payload message) ''method'' in
      count_tool_changes rest
        (if truthy current_method then current_method else last_method)
        (if truthy current_method \<and> truthy last_method \<and> current_method \<noteq> last_method
         then tool_changes + 1 else tool_changes))"

definition calculate_context_switching :: "MCPInteraction \<Rightarrow> real" where
  "calculate_context_switching interaction =
     (if length (message_traces interaction) < 2 then 20
      else
        let direction_changes = count_direction_changes (message_traces interaction) None 0;
            switching_score = real direction_changes * 10;
            tool_changes = count_tool_changes (message_traces interaction) JNull 0;
            switching_score = switching_score + real tool_changes * 15;
            switching_score =
              (if switching_score = 0 \<and> length (message_traces interaction) > 1 then 5
               else switching_score)
        in min switching_score 100)"

text \<open>
  The numbers of the two breakdown dictionaries; their \<open>explanations\<close> (formatted
  text) are left out.
\<close>

record retry_info =
  rb_base_score :: real
  rb_retry_penalty :: int
  rb_retry_count :: int
  rb_failure_penalty :: int
  rb_failed_interaction :: bool
  rb_error_penalty :: int
  rb_actual_error_count :: nat
  rb_latency_penalty :: int
  rb_latency_ms :: "int option"
  rb_latency_threshold_ms :: int

record config_info =
  cb_base_score :: real
  cb_auth_penalty :: int
  cb_param_penalty :: int
  cb_config_keyword_penalty :: int
  cb_latency_penalty :: int
  cb_latency_ms :: "int option"
  cb_latency_threshold_ms :: int

text \<open>The test that counts a message as an actual error.\<close>

definition is_actual_error :: "MCPMessageTrace \<Rightarrow> bool" where
  "is_actual_error message =
     (case error_code message of
        None \<Rightarrow> False
      | Some c \<Rightarrow> c \<noteq> [] \<and>
          (startswith c ''4'' \<or> startswith c ''5'' \<or>
           c \<in> set [''timeout'', ''connection_error'', ''parse_error'']))"

text \<open>\<open>CognitiveAnalyzer._calculate_retry_frustration\<close>.\<close>

definition calculate_retry_frustration :: "MCPInteraction \<Rightarrow> real \<times> retry_info" where
  "calculate_retry_frustration interaction =
     (let frustration_score = 10;
          retry_penalty = (if retry_count interaction \<noteq> 0 \<and> retry_count interaction > 0
                           then retry_count interaction * 25 else 0);
          frustration_score = frustration_score + real_of_int retry_penalty;
          failure_penalty = (if \<not> success interaction then 40 else 0);
          frustration_score = frustration_score + real_of_int failure_penalty;
          actual_error_count = length (filter is_actual_error (message_traces interaction));
          error_penalty = int actual_error_count * 20;
          frustration_score = frustration_score + real_of_int error_penalty;
          latency_penalty =
            (case total_latency_ms interaction of
               None \<Rightarrow> 0
             | Some l \<Rightarrow> if l > 0 \<and> l > baseline_latency_ms * 2
                          then (if success interaction then 15 else 30) else 0);
          frustration_score = frustration_score + real_of_int latency_penalty
      in (min frustration_score 100,
          \<lparr> rb_base_score = 10,
             rb_retry_penalty = retry_penalty,
             rb_retry_count = retry_count interaction,
             rb_failure_penalty = failure_penalty,
             rb_failed_interaction = (\<not> success interaction),
             rb_error_penalty = error_penalty,
             rb_actual_error_count = actual_error_count,
             rb_latency_penalty = latency_penalty,
             rb_latency_ms = total_latency_ms interaction,
             rb_latency_threshold_ms = baseline_latency_ms * 2 \<rparr>))"

text \<open>
  \<open>CognitiveAnalyzer._calculate_configuration_friction\<close>. \<open>py_str\<close> is Python's
  \<open>str\<close> on a payload dict.
\<close>

definition auth_penalty_of :: "MCPMessageTrace \<Rightarrow> int" where
  "auth_penalty_of message =
     (if error_code message \<in> set [Some ''401'', Some ''403''] then 50 else 0)"

definition param_penalty_of :: "MCPMessageTrace \<Rightarrow> int" where
  "param_penalty_of message =
     (if error_code message \<in> set [Some ''401'', Some ''403''] then 0
      else if error_code message \<in> set [Some ''400'', Some ''422''] then 30 else 0)"

definition config_keyword_penalty_of :: "(pydict \<Rightarrow> string) \<Rightarrow> MCPMessageTrace \<Rightarrow> int" where
  "config_keyword_penalty_of py_str message =
     (case error_code message of
        None \<Rightarrow> 0
      | Some c \<Rightarrow>
          if c \<noteq> [] \<and>
             list_ex (contains (lower (py_str (payload message))))
               [''api key'', ''token'', ''auth'', ''config'']
          then 35 else 0)"

definition calculate_configuration_friction ::
  "(pydict \<Rightarrow> string) \<Rightarrow> MCPInteraction \<Rightarrow> real \<times> config_info" where
  "calculate_configuration_friction py_str interaction =
     (let friction_score = 10;
          auth_penalty = sum_list (map auth_penalty_of (message_traces interaction));
          param_penalty = sum_list (map param_penalty_of (message_traces interaction));
          friction_score = friction_score + real_of_int auth_penalty + real_of_int param_penalty;
          config_keyword_penalty =
            sum_list (map (config_keyword_penalty_of py_str) (message_traces interaction));
          friction_score = friction_score + real_of_int config_keyword_penalty;
          latency_penalty =
            (case total_latency_ms interaction of
               None \<Rightarrow> 0
             | Some l \<Rightarrow> if l > baseline_latency_ms * 3
                          then (if success interaction then 10 else 25) else 0);
          friction_score = friction_score + real_of_int latency_penalty
      in (min friction_score 100,
          \<lparr> cb_base_score = 10,
             cb_auth_penalty = auth_penalty,
             cb_param_penalty = param_penalty,
             cb_config_keyword_penalty = config_keyword_penalty,
             cb_latency_penalty = latency_penalty,
             cb_latency_ms = total_latency_ms interaction,
             cb_latency_threshold_ms = baseline_latency_ms * 3 \<rparr>))"

text \<open>\<open>CognitiveAnalyzer._calculate_dict_depth\<close>: only dict values are descended into.\<close>

fun calculate_dict_depth :: "json \<Rightarrow> nat \<Rightarrow> nat" where
  "calculate_dict_depth (JDict d) current_depth =
     fold (\<lambda>v max_depth.
             case v of
               JDict d' \<Rightarrow> max max_depth (calculate_dict_depth v (current_depth + 1))
             | _ \<Rightarrow> max_depth)
          (map snd d) current_depth"
| "calculate_dict_depth _ current_depth = current_depth"

text \<open>\<open>CognitiveAnalyzer._calculate_integration_cognition\<close>.\<close>

definition calculate_integration_cognition :: "MCPInteraction \<Rightarrow> real" where
  "calculate_integration_cognition interaction =
     (let integration_score = 20;
          protocols = remdups (map protocol (message_traces interaction));
          integration_score =
            (if length protocols > 1 then integration_score + 20 else integration_score);
          directions = remdups (map direction (message_traces interaction));
          integration_score = integration_score + real (length directions) * 10;
          deep = filter (\<lambda>message. calculate_dict_depth (JDict (payload message)) 0 > 3)
                   (message_traces interaction);
          integration_score = integration_score + real (length deep) * 15
      in min integration_score 100)"

text \<open>\<open>CognitiveAnalyzer._calculate_overall_cognitive_load\<close>, with its table of weights.\<close>

definition weight_prompt_complexity :: real where "weight_prompt_complexity = 15 / 100"
definition weight_context_switching :: real where "weight_context_switching = 20 / 100"
definition weight_retry_frustration :: real where "weight_retry_frustration = 30 / 100"
definition weight_configuration_friction :: real where "weight_configuration_friction = 25 / 100"
definition weight_integration_cognition :: real where "weight_integration_cognition = 10 / 100"

definition calculate_overall_cognitive_load :: "real \<Rightarrow> real \<Rightarrow> real \<Rightarrow> real \<Rightarrow> real \<Rightarrow> real" where
  "calculate_overall_cognitive_load prompt_c context_s retry_f configuration_f integration_c =
     (let overall_score =
            prompt_c * weight_prompt_complexity +
            context_s * weight_context_switching +
            retry_f * weight_retry_frustration +
            configuration_f * weight_configuration_friction +
            integration_c * weight_integration_cognition
      in min overall_score 100)"

text \<open>
  \<open>CognitiveLoadMetrics\<close>: each of the six scores is declared \<open>Field(ge=0, le=100)\<close>,
  so building one with a score outside that range raises.
\<close>

record CognitiveLoadMetrics =
  overall_score :: real
  prompt_complexity :: real
  context_switching :: real
  retry_frustration :: real
  configuration_friction :: real
  integration_cognition :: real
  retry_breakdown :: "retry_info option"
  configuration_breakdown :: "config_info option"

definition valid_score :: "real \<Rightarrow> bool" where
  "valid_score x = (0 \<le> x \<and> x \<le> 100)"

text \<open>
  \<open>CognitiveAnalyzer.analyze_interaction\<close>: the five sub-scores, the overall score, and
  the metrics object; when building it raises, the default metrics of the \<open>except\<close>
  branch.
\<close>

definition analyze_interaction :: "(pydict \<Rightarrow> string) \<Rightarrow> MCPInteraction \<Rightarrow> CognitiveLoadMetrics" where
  "analyze_interaction py_str interaction =
     (let prompt_c = calculate_prompt_complexity interaction;
          context_s = calculate_context_switching interaction;
          (retry_f, retry_b) = calculate_retry_frustration interaction;
          (configuration_f, config_b) = calculate_configuration_friction py_str interaction;
          integration_c = calculate_integration_cognition interaction;
          overall = calculate_overall_cognitive_load prompt_c context_s retry_f
                      configuration_f integration_c
      in if valid_score overall \<and> valid_score prompt_c \<and> valid_score context_s \<and>
            valid_score retry_f \<and> valid_score configuration_f \<and> valid_score integration_c
         then \<lparr> overall_score = overall,
                prompt_complexity = prompt_c,
                context_switching = context_s,
                retry_frustration = retry_f,
                configuration_friction = configuration_f,
                integration_cognition = integration_c,
                retry_breakdown = Some retry_b,
                configuration_breakdown = Some config_b \<rparr>
         else \<lparr> overall_score = 50, prompt_complexity = 50, context_switching = 50,
                retry_frustration = 50, configuration_friction = 50,
                integration_cognition = 50, retry_breakdown = None,
                configuration_breakdown = None \<rparr>)"

text \<open>
  The letter grade, as \<open>TimelineAnalyzer.generate_cognitive_analysis\<close> derives it from
  the overall score.
\<close>

definition cognitive_grade :: "real \<Rightarrow> string" where
  "cognitive_grade overall =
     (if overall \<le> 20 then ''A''
      else if overall \<le> 40 then ''B''
      else if overall \<le> 60 then ''C''
      else if overall \<le> 80 then ''D''
      else ''F'')"

section \<open>From flows to interactions (TimelineAnalyzer.\_convert\_flows\_to\_interactions)\<close>

text \<open>\<open>int(x)\<close> on a float: truncation towards zero.\<close>

definition py_int :: "real \<Rightarrow> int" where
  "py_int x = (if x \<ge> 0 then \<lfloor>x\<rfloor> else \<lceil>x\<rceil>)"

definition inferred_prompt :: string where
  "inferred_prompt = ''[Inferred] User request requiring tool usage''"

text \<open>
  The user query of the interaction made from a flow. A prompt that is truthy and not a
  string has no \<open>startswith\<close>: the result is \<open>None\<close>, the \<open>AttributeError\<close>.
\<close>

definition user_query_of :: "json \<Rightarrow> string option" where
  "user_query_of user_prompt =
     (if \<not> truthy user_prompt then Some inferred_prompt
      else case user_prompt of
        JStr q \<Rightarrow>
          if q = inferred_prompt \<or> startswith q ''[Tool Discovery]'' \<or>
             q = ''Unknown user request''
          then Some inferred_prompt else Some q
      | _ \<Rightarrow> None)"

text \<open>
  The body of the loop over the flows: the traces (one per MCP call, or a single one
  when the flow has no call) and the interaction.
\<close>

definition flow_traces :: "flow \<Rightarrow> MCPMessageTrace list" where
  "flow_traces f =
     (let latency = (if duration_ms f \<noteq> 0 then Some (py_int (duration_ms f)) else None);
          message_traces =
            map (\<lambda>call. \<lparr> direction = LLM_TO_MCP_CLIENT, protocol = JSON_RPC,
                           payload = [(''method'', call_tool call), (''params'', call_args call)],
                           timestamp = flow_start_time f, latency_ms = latency,
                           error_code = None, retry_attempt = None \<rparr>)
                (mcp_calls f)
      in if message_traces = [] then
           [\<lparr> direction = LLM_TO_MCP_CLIENT, protocol = JSON_RPC,
               payload = [(''method'', JStr ''user_interaction''),
                          (''flow_type'', flow_user_prompt f)],
               timestamp = flow_start_time f, latency_ms = latency,
               error_code = None, retry_attempt = None \<rparr>]
         else message_traces)"

definition convert_flow :: "flow \<Rightarrow> MCPInteraction option" where
  "convert_flow f =
     (case user_query_of (flow_user_prompt f) of
        None \<Rightarrow> None
      | Some q \<Rightarrow>
          Some \<lparr> server_name = (if servers_involved f \<noteq> [] then hd (servers_involved f)
                                else ''unknown''),
                 user_query = q,
                 start_time = flow_start_time f,
                 end_time = Some (flow_end_time f),
                 message_traces = flow_traces f,
                 success = flow_success f,
                 total_latency_ms = Some (py_int (duration_ms f)),
                 retry_count = 0 \<rparr>)"

text \<open>
  \<open>_convert_flows_to_interactions\<close>: an exception ends the loop, and the interactions
  built so far are returned.
\<close>

fun convert_loop :: "flow list \<Rightarrow> MCPInteraction list \<Rightarrow> MCPInteraction list" where
  "convert_loop [] interactions = interactions"
| "convert_loop (f # rest) interactions =
     (case convert_flow f of
        None \<Rightarrow> interactions
      | Some interaction \<Rightarrow> convert_loop rest (interactions @ [interaction]))"

definition convert_flows_to_interactions :: "flow list \<Rightarrow> MCPInteraction list" where
  "convert_flows_to_interactions flows = convert_loop flows []"

text \<open>
  The prompt-complexity rule of the specification, in its words: base 20, a bonus by
  word count, 8 per technical term, 10 per logic term, 12 per action verb beyond two, 15
  for a temporal word, 10 for a number or a quantifier word, capped at 100; exactly 20
  for an inferred or placeholder prompt.
\<close>

definition word_count_bonus :: "nat \<Rightarrow> real" where
  "word_count_bonus n = (if n > 10 then 25 else if n > 5 then 15 else if n > 2 then 5 else 0)"

definition temporal_bonus :: "string \<Rightarrow> real" where
  "temporal_bonus q = (if list_ex (contains q) time_words then 15 else 0)"

definition numeric_bonus :: "string \<Rightarrow> real" where
  "numeric_bonus q =
     (if list_ex is_digit q \<or> list_ex (contains q) quantifier_words then 10 else 0)"

definition spec_prompt_complexity :: "string \<Rightarrow> real" where
  "spec_prompt_complexity user_prompt =
     (let q = lower user_prompt in
      if is_placeholder q then 20
      else min 100
             (20 + word_count_bonus (length (split q)) +
              8 * real (count_hits technical_indicators q) +
              10 * real (count_hits complexity_indicators q) +
              12 * real (count_hits action_verbs q - 2) +
              temporal_bonus q + numeric_bonus q))"

text \<open>An interaction whose prompt names three actions.\<close>

definition three_actions :: MCPInteraction where
  "three_actions =
     \<lparr> server_name = ''weather'', user_query = ''Create update delete'', start_time = 0,
        end_time = Some 120000,
        message_traces = [], success = True, total_latency_ms = Some 120, retry_count = 0 \<rparr>"

section \<open>The averaged report (TimelineAnalyzer.generate\_cognitive\_analysis)\<close>

text \<open>
  \<open>round(x, 1)\<close> on exact reals: the nearest multiple of one tenth, a tie going to the
  even one.
\<close>

definition round1 :: "real \<Rightarrow> real" where
  "round1 x =
     (let y = x * 10; f = \<lfloor>y\<rfloor>; d = y - real_of_int f
      in real_of_int (if d < 1 / 2 then f
                      else if d > 1 / 2 then f + 1
                      else if even f then f else f + 1) / 10)"

text \<open>\<open>x or 50.0\<close> on a score.\<close>

definition or_default :: "real \<Rightarrow> real" where
  "or_default x = (if x = 0 then 50 else x)"

definition patch_scores :: "CognitiveLoadMetrics \<Rightarrow> CognitiveLoadMetrics" where
  "patch_scores cl =
     cl\<lparr> overall_score := or_default (overall_score cl),
         prompt_complexity := or_default (prompt_complexity cl),
         context_switching := or_default (context_switching cl),
         retry_frustration := or_default (retry_frustration cl),
         configuration_friction := or_default (configuration_friction cl),
         integration_cognition := or_default (integration_cognition cl) \<rparr>"

text \<open>\<open>round(sum(cl.field or 0 for cl in cognitive_loads) / len(cognitive_loads), 1)\<close>.\<close>

definition mean_score :: "(CognitiveLoadMetrics \<Rightarrow> real) \<Rightarrow> CognitiveLoadMetrics list \<Rightarrow> real" where
  "mean_score field cognitive_loads =
     round1 (sum_list (map field cognitive_loads) / real (length cognitive_loads))"

text \<open>
  The \<open>cognitive_load\<close> dictionary of the report: the six averages and the grade
  (friction points, insights and the breakdowns copied from the last interaction are left
  out). With no interaction to analyse the report is the fixed one of the first branch.
\<close>

record cognitive_load_report =
  avg_overall_score :: real
  avg_prompt_complexity :: real
  avg_context_switching :: real
  avg_retry_frustration :: real
  avg_configuration_friction :: real
  avg_integration_cognition :: real
  grade :: string

definition generate_cognitive_analysis :: "(pydict \<Rightarrow> string) \<Rightarrow> flow list \<Rightarrow> cognitive_load_report" where
  "generate_cognitive_analysis py_str flows =
     (let interactions = convert_flows_to_interactions flows in
      if interactions = [] then
        \<lparr> avg_overall_score = 0, avg_prompt_complexity = 0, avg_context_switching = 0,
           avg_retry_frustration = 0, avg_configuration_friction = 0,
           avg_integration_cognition = 0, grade = ''F'' \<rparr>
      else
        let cognitive_loads = map (\<lambda>i. patch_scores (analyze_interaction py_str i)) interactions;
            overall = mean_score overall_score cognitive_loads
        in \<lparr> avg_overall_score = overall,
              avg_prompt_complexity = mean_score prompt_complexity cognitive_loads,
              avg_context_switching = mean_score context_switching cognitive_loads,
              avg_retry_frustration = mean_score retry_frustration cognitive_loads,
              avg_configuration_friction = mean_score configuration_friction cognitive_loads,
              avg_integration_cognition = mean_score integration_cognition cognitive_loads,
              grade = cognitive_grade overall \<rparr>)"

text \<open>Python's \<open>str\<close> is not needed where no trace carries an error code.\<close>

definition no_str :: "pydict \<Rightarrow> string" where
  "no_str p = []"

section \<open>Properties of the proxy\<close>

lemma emit_log_frame:
  "server_stdin (emit_log rt n l m st) = server_stdin st"
  "server_stdin_open (emit_log rt n l m st) = server_stdin_open st"
  "server_stdout_open (emit_log rt n l m st) = server_stdout_open st"
  "server_stderr_open (emit_log rt n l m st) = server_stderr_open st"
  "captured_messages (emit_log rt n l m st) = captured_messages st"
  "audit_file (emit_log rt n l m st) = audit_file st"
  "stdout_handler (emit_log rt n l m st) = stdout_handler st"
  by (simp_all add: emit_log_def)

lemma emit_log_quiet:
  "\<not> stdout_handler st \<Longrightarrow> emit_log rt n l m st = st"
  by (simp add: emit_log_def)

lemma runner_callback_quiet:
  "quiet_callback (Some (enhanced_audit_message_callback rt n sn pid))"
  by (auto simp: quiet_callback_def enhanced_audit_message_callback_def emit_log_frame
        emit_log_quiet split: option.splits)

lemma no_callback_quiet: "quiet_callback None"
  by (simp add: quiet_callback_def)

lemma capture_message_frame:
  assumes "quiet_callback cb"
  shows "server_stdin (capture_message rt cb m d t st) = server_stdin st"
    and "server_stdin_open (capture_message rt cb m d t st) = server_stdin_open st"
    and "server_stdout_open (capture_message rt cb m d t st) = server_stdout_open st"
    and "stdout_handler (capture_message rt cb m d t st) = stdout_handler st"
  using assms
  by (auto simp: capture_message_def quiet_callback_def emit_log_frame Let_def
        split: option.splits json.splits)

lemma capture_message_quiet:
  assumes "quiet_callback cb" and "\<not> stdout_handler st"
  shows "host_stdout (capture_message rt cb m d t st) = host_stdout st"
  using assms
  by (auto simp: capture_message_def quiet_callback_def emit_log_quiet emit_log_frame Let_def
        split: option.splits json.splits)

lemma forward_stdin_general:
  "quiet_callback cb \<Longrightarrow> server_stdin_open st \<Longrightarrow>
   server_stdin (forward_stdin_to_server rt cb st steps) =
     server_stdin st @ concat (map line (takeWhile (\<lambda>s. line s \<noteq> [] \<and> write_ok s) steps))"
proof (induction steps arbitrary: st)
  case Nil
  then show ?case by simp
next
  case (Cons s rest)
  let ?st1 = "capture_message rt cb (strip (line s)) LLM_TO_MCP_CLIENT (now s) st"
  have fr: "server_stdin ?st1 = server_stdin st" "server_stdin_open ?st1"
    using Cons.prems by (simp_all add: capture_message_frame)
  show ?case
  proof (cases "line s \<noteq> [] \<and> write_ok s")
    case True
    then show ?thesis
      using fr Cons.prems(1)
        Cons.IH [of "?st1\<lparr> server_stdin := server_stdin ?st1 @ line s \<rparr>"]
      by (simp add: Let_def write_ok_def)
  next
    case False
    then show ?thesis
      using fr by (auto simp: Let_def write_ok_def emit_log_frame split: option.splits)
  qed
qed

lemma forward_stdout_general:
  "quiet_callback cb \<Longrightarrow> server_stdout_open st \<Longrightarrow> \<not> stdout_handler st \<Longrightarrow>
   host_stdout (forward_server_to_stdout rt cb st steps) =
     host_stdout st @ concat (map line (takeWhile (\<lambda>s. line s \<noteq> [] \<and> write_ok s) steps))"
proof (induction steps arbitrary: st)
  case Nil
  then show ?case by simp
next
  case (Cons s rest)
  let ?st1 = "capture_message rt cb (strip (line s)) MCP_CLIENT_TO_SERVER (now s) st"
  have fr: "host_stdout ?st1 = host_stdout st" "server_stdout_open ?st1"
    "\<not> stdout_handler ?st1"
    using Cons.prems by (simp_all add: capture_message_frame capture_message_quiet)
  show ?case
  proof (cases "line s \<noteq> [] \<and> write_ok s")
    case True
    then show ?thesis
      using fr Cons.prems
        Cons.IH [of "?st1\<lparr> host_stdout := host_stdout ?st1 @ line s \<rparr>"]
      by (simp add: Let_def write_ok_def)
  next
    case False
    then show ?thesis
      using fr Cons.prems by (auto simp: Let_def write_ok_def split: option.splits)
  qed
qed

lemma takeWhile_writes_ok:
  "list_all write_ok steps \<Longrightarrow>
   takeWhile (\<lambda>s. line s \<noteq> [] \<and> write_ok s) steps = takeWhile (\<lambda>s. line s \<noteq> []) steps"
  by (induction steps) auto

text \<open>
  The host path is exact: with the child's stdin there and the writes succeeding, the
  child receives the lines read from the host, unchanged and in order, and nothing else.
\<close>

lemma forward_stdin_lines:
  "quiet_callback cb \<Longrightarrow> server_stdin_open st \<Longrightarrow> list_all write_ok steps \<Longrightarrow>
   server_stdin (forward_stdin_to_server rt cb st steps) =
     server_stdin st @ concat (lines_before_eof steps)"
  by (simp add: forward_stdin_general takeWhile_writes_ok lines_before_eof_def)

text \<open>
  So is the server path as long as no handler writes log records to stdout, which is
  the proxy without the runner.
\<close>

lemma forward_stdout_lines:
  "quiet_callback cb \<Longrightarrow> server_stdout_open st \<Longrightarrow> \<not> stdout_handler st \<Longrightarrow>
   list_all write_ok steps \<Longrightarrow>
   host_stdout (forward_server_to_stdout rt cb st steps) =
     host_stdout st @ concat (lines_before_eof steps)"
  by (simp add: forward_stdout_general takeWhile_writes_ok lines_before_eof_def)

lemma concat_readlines_from: "concat (readlines_from cur t) = cur @ t"
  by (induction t arbitrary: cur) simp_all

lemma concat_readlines: "concat (readlines t) = t"
  by (simp add: readlines_def concat_readlines_from)

lemma universal_newlines_no_cr:
  "carriage_return \<notin> set t \<Longrightarrow> universal_newlines t = t"
  by (induction t rule: universal_newlines.induct) auto

lemma universal_newlines_drops_cr:
  "carriage_return \<notin> set (universal_newlines t)"
  by (induction t rule: universal_newlines.induct)
     (auto simp: carriage_return_def line_feed_def)

text \<open>
  The text layer of the child's stdout pipe keeps a text exactly when the text has no
  carriage return.
\<close>

lemma universal_newlines_fixed:
  "(universal_newlines t = t) = (carriage_return \<notin> set t)"
  using universal_newlines_no_cr universal_newlines_drops_cr by metis

lemma host_path_bytes:
  "quiet_callback cb \<Longrightarrow> server_stdin_open st \<Longrightarrow> list_all write_ok steps \<Longrightarrow>
   host_stdin_reads sent steps \<Longrightarrow>
   server_stdin (forward_stdin_to_server rt cb st steps) = server_stdin st @ sent"
  by (simp add: forward_stdin_lines host_stdin_reads_def concat_readlines)

lemma server_path_bytes_without_handler:
  "quiet_callback cb \<Longrightarrow> server_stdout_open st \<Longrightarrow> \<not> stdout_handler st \<Longrightarrow>
   list_all write_ok steps \<Longrightarrow> child_stdout_reads sent steps \<Longrightarrow>
   host_stdout (forward_server_to_stdout rt cb st steps) =
     host_stdout st @ universal_newlines sent"
  by (simp add: forward_stdout_lines child_stdout_reads_def concat_readlines)

text \<open>
  With the handler of the runner every message that is captured puts a log record on
  the stdout of the proxy, ahead of the forwarded line.
\<close>

lemma capture_message_logs:
  "stdout_handler st \<Longrightarrow> strip m \<noteq> [] \<Longrightarrow> json_loads rt m = Some (JDict p) \<Longrightarrow>
   host_stdout (capture_message rt None m d t st) =
     host_stdout st @ asctime rt (log_records st) @ '' - '' @ proxy_logger @ '' - INFO - '' @
       antenna @ '' Captured '' @ direction_value d @ '': '' @ method_or_response rt p @
       [line_feed]"
  by (simp add: capture_message_def emit_log_def Let_def)

text \<open>So does every line the child writes to its stderr.\<close>

lemma monitor_stderr_logs:
  "stdout_handler st \<Longrightarrow> server_stderr_open st \<Longrightarrow>
   host_stdout (monitor_stderr rt st [''ready'' @ [line_feed], []]) =
     host_stdout st @ asctime rt (log_records st) @ '' - '' @ proxy_logger @
       '' - WARNING - MCP Server stderr: ready'' @ [line_feed]"
proof -
  have s: "strip (''ready'' @ [line_feed]) = ''ready''"
    by (simp add: strip_def is_space_def line_feed_def)
  have l: "lower ''ready'' = ''ready''"
    by code_simp
  have c: "\<not> contains ''ready'' ''error''" "\<not> contains ''ready'' ''failed''"
    by simp_all
  show ?thesis
    if "stdout_handler st" and "server_stderr_open st"
    using that s l c by (simp add: Let_def emit_log_def)
qed

subsection \<open>Evaluating the sample run\<close>

lemma sample_strip:
  "strip (sample_request @ [line_feed]) = sample_request"
  "strip (sample_response @ [line_feed]) = sample_response"
  "strip sample_request = sample_request"
  "strip sample_response = sample_response"
  by (simp_all add: strip_def sample_request_def sample_response_def dq_def is_space_def
        line_feed_def)

lemma sample_neq: "sample_response \<noteq> sample_request"
  by (simp add: sample_request_def sample_response_def dq_def)

lemma sample_nonempty: "sample_request \<noteq> []" "sample_response \<noteq> []"
  by (simp_all add: sample_request_def sample_response_def dq_def)

lemmas sample_simps =
  sample_run_def sample_stdin_steps_def sample_stdout_steps_def sample_callback_def
  initial_proxy_def new_proxy_def start_proxy_server_def emit_log_def sample_runtime_def
  Let_def capture_message_def sample_strip sample_json_loads_def
  sample_neq sample_nonempty enhanced_audit_message_callback_def message_data_of_def
  tool_name_of_def method_or_response_def dict_get_def lines_before_eof_def

lemma sample_run_server_stdin:
  "server_stdin sample_run = sample_request @ [line_feed]"
  by (simp add: sample_simps)

lemma sample_run_host_stdout:
  "host_stdout sample_run =
     sample_asctime 0 @ '' - '' @ proxy_logger @
       '' - INFO - Started MCP server proxy: weather-server (cwd: /work)'' @ [line_feed] @
     sample_asctime 1 @ '' - __main__ - INFO - '' @ antenna @
       '' Enhanced audit [weather]: '' @ direction_value LLM_TO_MCP_CLIENT @
       '' - tools/call'' @ [line_feed] @
     sample_asctime 2 @ '' - '' @ proxy_logger @ '' - INFO - '' @ antenna @
       '' Captured '' @ direction_value LLM_TO_MCP_CLIENT @ '': tools/call'' @ [line_feed] @
     sample_asctime 3 @ '' - __main__ - INFO - '' @ antenna @
       '' Enhanced audit [weather]: '' @ direction_value MCP_CLIENT_TO_SERVER @
       '' - response'' @ [line_feed] @
     sample_asctime 4 @ '' - '' @ proxy_logger @ '' - INFO - '' @ antenna @
       '' Captured '' @ direction_value MCP_CLIENT_TO_SERVER @ '': response'' @ [line_feed] @
     sample_response @ [line_feed]"
  by (simp add: sample_simps eval_nat_numeral)

lemma sample_run_audit_file:
  "audit_file sample_run =
     [\<lparr> md_timestamp = 0, md_server_name = ''weather'', md_server_process_id = 4242,
         md_direction = direction_value LLM_TO_MCP_CLIENT, md_protocol = ''JSON-RPC'',
         md_payload = [(''jsonrpc'', JStr ''2.0''), (''id'', JInt 1),
                       (''method'', JStr ''tools/call''),
                       (''params'', JDict [(''name'', JStr ''get_weather'')])],
         md_latency_ms = None, md_error_code = None, md_llm_initiated = False,
         md_tool_method = JStr ''tools/call'', md_tool_name = JStr ''get_weather'' \<rparr>,
      \<lparr> md_timestamp = 120000, md_server_name = ''weather'', md_server_process_id = 4242,
         md_direction = direction_value MCP_CLIENT_TO_SERVER, md_protocol = ''JSON-RPC'',
         md_payload = [(''jsonrpc'', JStr ''2.0''), (''id'', JInt 1),
                       (''result'', JDict [(''temp'', JInt 15)])],
         md_latency_ms = None, md_error_code = None, md_llm_initiated = False,
         md_tool_method = JNull, md_tool_name = JNull \<rparr>]"
  by (simp add: sample_simps arrow_def)

lemma sample_run_line_count: "length (readlines (host_stdout sample_run)) = 6"
  by code_simp

lemma sample_reads:
  "host_stdin_reads (sample_request @ [line_feed]) sample_stdin_steps"
  "child_stdout_reads (sample_response @ [line_feed]) sample_stdout_steps"
  "child_stdout_reads crlf_response sample_stdout_steps"
  by code_simp+

text \<open>
  A response that ends in \<open>\r\n\<close> is read by the proxy with the carriage return gone.
\<close>

lemma crlf_response_is_rewritten:
  "universal_newlines crlf_response = sample_response @ [line_feed]"
  by code_simp

subsection \<open>C1: forwarding\<close>

text \<open>
  C1. The code does not do what the claim says. The proxy is started by the runner, the
  host sends the sample request and the server answers with the sample response. The
  child receives the request as the host sent it. The stdout of the proxy, which is what
  the host reads, carries six lines: the record that reports the start, two records for
  the request, two records for the response, and only then the response. So the host
  does not receive the byte sequence the server sent.
\<close>

theorem runner_logs_reach_the_host:
  "host_stdin_reads (sample_request @ [line_feed]) sample_stdin_steps \<and>
   child_stdout_reads (sample_response @ [line_feed]) sample_stdout_steps \<and>
   server_stdin sample_run = sample_request @ [line_feed] \<and>
   host_stdout sample_run =
     sample_asctime 0 @ '' - '' @ proxy_logger @
       '' - INFO - Started MCP server proxy: weather-server (cwd: /work)'' @ [line_feed] @
     sample_asctime 1 @ '' - __main__ - INFO - '' @ antenna @
       '' Enhanced audit [weather]: '' @ direction_value LLM_TO_MCP_CLIENT @
       '' - tools/call'' @ [line_feed] @
     sample_asctime 2 @ '' - '' @ proxy_logger @ '' - INFO - '' @ antenna @
       '' Captured '' @ direction_value LLM_TO_MCP_CLIENT @ '': tools/call'' @ [line_feed] @
     sample_asctime 3 @ '' - __main__ - INFO - '' @ antenna @
       '' Enhanced audit [weather]: '' @ direction_value MCP_CLIENT_TO_SERVER @
       '' - response'' @ [line_feed] @
     sample_asctime 4 @ '' - '' @ proxy_logger @ '' - INFO - '' @ antenna @
       '' Captured '' @ direction_value MCP_CLIENT_TO_SERVER @ '': response'' @ [line_feed] @
     sample_response @ [line_feed] \<and>
   length (readlines (host_stdout sample_run)) = 6 \<and>
   host_stdout sample_run \<noteq> sample_response @ [line_feed]"
proof -
  have differs: "host_stdout sample_run \<noteq> sample_response @ [line_feed]"
  proof
    assume "host_stdout sample_run = sample_response @ [line_feed]"
    then have "length (readlines (host_stdout sample_run)) =
               length (readlines (sample_response @ [line_feed]))"
      by simp
    moreover have "length (readlines (sample_response @ [line_feed])) = 1"
      by code_simp
    ultimately show False
      by (simp add: sample_run_line_count)
  qed
  show ?thesis
    using sample_reads(1,2) sample_run_server_stdin sample_run_host_stdout
      sample_run_line_count differs
    by blast
qed

subsection \<open>C6: latency of captured events\<close>

lemma no_latency_emit_log:
  "no_latency (emit_log rt n l m st) = no_latency st"
  by (simp add: no_latency_def emit_log_frame)

lemma runner_callback_no_latency:
  "no_latency st \<Longrightarrow> latency_ms trace = None \<Longrightarrow>
   no_latency (enhanced_audit_message_callback rt n sn pid trace st)"
  by (auto simp: enhanced_audit_message_callback_def message_data_of_def no_latency_def
        emit_log_frame split: option.splits)

lemma capture_message_no_latency:
  "no_latency st \<Longrightarrow>
   no_latency (capture_message rt (Some (enhanced_audit_message_callback rt' n sn pid)) m d t st)"
proof -
  assume st: "no_latency st"
  have step: "no_latency
      (enhanced_audit_message_callback rt' n sn pid
         \<lparr> direction = d, protocol = JSON_RPC, payload = p, timestamp = t, latency_ms = None,
            error_code = None, retry_attempt = None \<rparr>
         (st\<lparr> captured_messages := captured_messages st @
                 [\<lparr> direction = d, protocol = JSON_RPC, payload = p, timestamp = t,
                    latency_ms = None, error_code = None, retry_attempt = None \<rparr>],
               message_counter := message_counter st + 1 \<rparr>))" for p
    using st by (intro runner_callback_no_latency) (simp_all add: no_latency_def)
  show ?thesis
    using st step
    by (simp add: capture_message_def no_latency_emit_log Let_def
          split: option.splits json.splits)
qed

lemma no_latency_stream_update:
  "no_latency (st\<lparr> server_stdin := x \<rparr>) = no_latency st"
  "no_latency (st\<lparr> host_stdout := y \<rparr>) = no_latency st"
  by (simp_all add: no_latency_def)

lemma forward_stdin_no_latency:
  "no_latency st \<Longrightarrow>
   no_latency (forward_stdin_to_server rt
     (Some (enhanced_audit_message_callback rt' n sn pid)) st steps)"
proof (induction steps arbitrary: st)
  case Nil
  then show ?case by simp
next
  case (Cons s rest)
  let ?st1 = "capture_message rt (Some (enhanced_audit_message_callback rt' n sn pid))
                (strip (line s)) LLM_TO_MCP_CLIENT (now s) st"
  have n1: "no_latency ?st1"
    using Cons.prems by (rule capture_message_no_latency)
  then have n2: "no_latency (?st1\<lparr> server_stdin := server_stdin ?st1 @ line s \<rparr>)"
    by (simp add: no_latency_stream_update)
  show ?case
    using Cons.prems n1 Cons.IH [OF n1] Cons.IH [OF n2]
    by (simp add: Let_def no_latency_emit_log split: option.splits)
qed

lemma forward_stdout_no_latency:
  "no_latency st \<Longrightarrow>
   no_latency (forward_server_to_stdout rt
     (Some (enhanced_audit_message_callback rt' n sn pid)) st steps)"
proof (induction steps arbitrary: st)
  case Nil
  then show ?case by simp
next
  case (Cons s rest)
  let ?st1 = "capture_message rt (Some (enhanced_audit_message_callback rt' n sn pid))
                (strip (line s)) MCP_CLIENT_TO_SERVER (now s) st"
  have n1: "no_latency ?st1"
    using Cons.prems by (rule capture_message_no_latency)
  then have n2: "no_latency (?st1\<lparr> host_stdout := host_stdout ?st1 @ line s \<rparr>)"
    by (simp add: no_latency_stream_update)
  show ?case
    using Cons.prems n1 Cons.IH [OF n2] by (simp add: Let_def split: option.splits)
qed

text \<open>
  C6 as stated fails. In the sample run the request with id 1 is captured on the host
  path at time 0 and the response with id 1 on the server path 120 ms later, and the
  response is stored with no latency at all, not with the 120 ms the claim asks for.
\<close>

theorem latency_matching_counterexample:
  "dict_get (md_payload (audit_file sample_run ! 0)) ''id'' = JInt 1 \<and>
   md_direction (audit_file sample_run ! 0) = direction_value LLM_TO_MCP_CLIENT \<and>
   dict_get (md_payload (audit_file sample_run ! 1)) ''id'' = JInt 1 \<and>
   md_direction (audit_file sample_run ! 1) = direction_value MCP_CLIENT_TO_SERVER \<and>
   spec_latency_ms (audit_file sample_run ! 0) (audit_file sample_run ! 1) = Some 120 \<and>
   md_latency_ms (audit_file sample_run ! 1) = None \<and>
   md_latency_ms (audit_file sample_run ! 1) \<noteq>
     spec_latency_ms (audit_file sample_run ! 0) (audit_file sample_run ! 1)"
  by (simp add: sample_run_audit_file spec_latency_ms_def dict_get_def)

text \<open>
  C6, amended. Every event the proxy captures, request or response, is recorded with
  \<open>latency_ms = None\<close>, in the proxy's list of traces and in the audit file: the proxy
  does not match responses to requests and computes no timestamp delta.
\<close>

theorem captured_latency_is_none:
  "no_latency st \<longrightarrow>
   no_latency (capture_message rt
     (Some (enhanced_audit_message_callback rt' n sn pid)) m d t st) \<and>
   no_latency (forward_stdin_to_server rt
     (Some (enhanced_audit_message_callback rt' n sn pid)) st steps) \<and>
   no_latency (forward_server_to_stdout rt
     (Some (enhanced_audit_message_callback rt' n sn pid)) st steps)"
  by (simp add: capture_message_no_latency forward_stdin_no_latency forward_stdout_no_latency)

theorem captured_latency_is_none_witness:
  "no_latency initial_proxy \<and> no_latency sample_run \<and>
   map md_latency_ms (audit_file sample_run) = [None, None]"
proof -
  have i: "no_latency initial_proxy"
    by (simp add: no_latency_def initial_proxy_def start_proxy_server_def new_proxy_def
          emit_log_def)
  let ?cb = "Some (enhanced_audit_message_callback sample_runtime ''__main__'' ''weather'' 4242)"
  let ?mid = "forward_stdin_to_server sample_runtime ?cb initial_proxy sample_stdin_steps"
  have m: "no_latency ?mid"
    using i captured_latency_is_none [where st = initial_proxy and rt = sample_runtime
        and rt' = sample_runtime and n = "''__main__''" and sn = "''weather''" and pid = 4242
        and steps = sample_stdin_steps]
    by simp
  have "no_latency sample_run"
    using m captured_latency_is_none [where st = "?mid" and rt = sample_runtime
        and rt' = sample_runtime and n = "''__main__''" and sn = "''weather''" and pid = 4242
        and steps = sample_stdout_steps]
    by (simp add: sample_run_def sample_callback_def)
  with i show ?thesis
    by (simp add: sample_run_audit_file)
qed

section \<open>Properties of the timeline correlator\<close>

lemma gaps_within_snoc:
  "gaps_within w ts \<Longrightarrow> ts \<noteq> [] \<Longrightarrow> total_seconds (t - last ts) \<le> w \<Longrightarrow> gaps_within w (ts @ [t])"
  by (induction w ts rule: gaps_within.induct) auto

lemma gaps_within_nth:
  "gaps_within w ts \<Longrightarrow> Suc i < length ts \<Longrightarrow> total_seconds (ts ! Suc i - ts ! i) \<le> w"
proof (induction w ts arbitrary: i rule: gaps_within.induct)
  case (1 w t1 t2 ts)
  then show ?case by (cases i) auto
qed auto

lemma gaps_between_nth:
  "gaps_between w gs \<Longrightarrow> Suc j < length gs \<Longrightarrow> total_seconds (hd (gs ! Suc j) - last (gs ! j)) > w"
proof (induction w gs arbitrary: j rule: gaps_between.induct)
  case (1 w g1 g2 gs)
  then show ?case by (cases j) auto
qed auto

lemma event_groups_concat: "concat (event_groups w evs cur) = cur @ evs"
  by (induction evs arbitrary: cur) auto

lemma event_groups_nonempty: "[] \<notin> set (event_groups w evs cur)"
  by (induction evs arbitrary: cur) auto

lemma event_groups_within:
  "gaps_within (real_of_int w) (map parsed_timestamp cur) \<Longrightarrow>
   \<forall>g\<in>set (event_groups w evs cur). gaps_within (real_of_int w) (map parsed_timestamp g)"
proof (induction evs arbitrary: cur)
  case Nil
  then show ?case by simp
next
  case (Cons e rest)
  show ?case
  proof (cases "cur = [] \<or> time_gap_seconds (last cur) e > real_of_int w")
    case True
    have "gaps_within (real_of_int w) (map parsed_timestamp [e])" by simp
    from Cons.IH [OF this] Cons.prems True show ?thesis by auto
  next
    case False
    then have "gaps_within (real_of_int w) (map parsed_timestamp (cur @ [e]))"
      using Cons.prems gaps_within_snoc [of "real_of_int w" "map parsed_timestamp cur" "parsed_timestamp e"]
      by (simp add: time_gap_seconds_def last_map)
    from Cons.IH [OF this] False show ?thesis by simp
  qed
qed

lemma event_groups_hd:
  "cur \<noteq> [] \<Longrightarrow> event_groups w evs cur \<noteq> [] \<and> hd (hd (event_groups w evs cur)) = hd cur"
  by (induction evs arbitrary: cur) auto

lemma event_groups_between:
  "gaps_between (real_of_int w) (map (map parsed_timestamp) (event_groups w evs cur))"
proof (induction evs arbitrary: cur)
  case Nil
  then show ?case by simp
next
  case (Cons e rest)
  show ?case
  proof (cases "cur = []")
    case True
    then show ?thesis using Cons.IH [of "[e]"] by simp
  next
    case False
    note ne = this
    show ?thesis
    proof (cases "time_gap_seconds (last cur) e > real_of_int w")
      case True
      obtain g gs where gs: "event_groups w rest [e] = g # gs" and g: "hd g = e" and gne: "g \<noteq> []"
        using event_groups_hd [of "[e]" w rest] event_groups_nonempty [of w rest "[e]"]
        by (cases "event_groups w rest [e]") auto
      have "gaps_between (real_of_int w) (map (map parsed_timestamp) (g # gs))"
        using Cons.IH [of "[e]"] gs by simp
      then show ?thesis
        using True ne gs g gne
        by (simp add: time_gap_seconds_def last_map hd_map)
    next
      case False
      then show ?thesis using ne Cons.IH [of "cur @ [e]"] by simp
    qed
  qed
qed

lemma build_timeline_times:
  "build_timeline evs = Some entries \<Longrightarrow> map tl_timestamp entries = map parsed_timestamp evs"
  by (induction evs arbitrary: entries) (auto split: option.splits)

lemma create_flow_summary_times:
  "create_flow_summary g = Some f \<Longrightarrow> flow_times f = map parsed_timestamp g"
  by (auto simp: create_flow_summary_def flow_times_def Let_def build_timeline_times
           split: option.splits)

lemma create_flow_summary_success:
  "create_flow_summary g = Some f \<Longrightarrow> flow_success f = determine_flow_success g"
  by (auto simp: create_flow_summary_def Let_def split: option.splits)

lemma group_loop_groups:
  "group_loop w evs cur flows = Some fs \<Longrightarrow>
   \<exists>fs'. fs = flows @ fs' \<and>
         list_all2 (\<lambda>g f. create_flow_summary g = Some f) (event_groups w evs cur) fs'"
proof (induction evs arbitrary: cur flows fs)
  case Nil
  then show ?case
    by (auto simp: append_summary_def split: if_splits option.splits)
next
  case (Cons e rest)
  show ?case
  proof (cases "cur = [] \<or> time_gap_seconds (last cur) e > real_of_int w")
    case True
    then obtain flows1 where f1: "append_summary flows cur = Some flows1"
      and gl: "group_loop w rest [e] flows1 = Some fs"
      using Cons.prems by (auto split: option.splits)
    from Cons.IH [OF gl] obtain fs' where fs': "fs = flows1 @ fs'"
      "list_all2 (\<lambda>g f. create_flow_summary g = Some f) (event_groups w rest [e]) fs'"
      by blast
    show ?thesis
    proof (cases "cur = []")
      case True
      then show ?thesis using f1 fs' by (simp add: append_summary_def)
    next
      case False
      then obtain f where "create_flow_summary cur = Some f" "flows1 = flows @ [f]"
        using f1 by (auto simp: append_summary_def split: option.splits)
      then show ?thesis using fs' True False by simp
    qed
  next
    case False
    then have "group_loop w rest (cur @ [e]) flows = Some fs"
      using Cons.prems by simp
    from Cons.IH [OF this] False show ?thesis by simp
  qed
qed

lemma group_into_flows_groups:
  assumes "group_into_flows w events = Some flows"
  shows "list_all2 (\<lambda>g f. create_flow_summary g = Some f) (event_groups w events []) flows"
proof (cases "events = []")
  case True
  then show ?thesis using assms by (simp add: group_into_flows_def)
next
  case False
  then have "group_loop w events [] [] = Some flows"
    using assms by (simp add: group_into_flows_def)
  from group_loop_groups [OF this] show ?thesis by simp
qed

lemma group_into_flows_times:
  assumes "group_into_flows w events = Some flows"
  shows "map flow_times flows = map (map parsed_timestamp) (event_groups w events [])"
proof -
  have "list_all2 (\<lambda>g f. flow_times f = map parsed_timestamp g) (event_groups w events []) flows"
    using group_into_flows_groups [OF assms]
    by (rule list_all2_mono) (simp add: create_flow_summary_times)
  then show ?thesis
    by (induction rule: list_all2_induct) auto
qed

lemma sorted_concat_member: "sorted (concat xss) \<Longrightarrow> xs \<in> set xss \<Longrightarrow> sorted xs"
  by (induction xss) (auto simp: sorted_append)

subsection \<open>C2: flow boundaries\<close>

text \<open>
  C2. When the correlator groups a list of events sorted by timestamp with gap threshold
  \<open>w\<close> seconds, two consecutive events of one flow are between 0 and \<open>w\<close> seconds
  apart, and the last event of a flow and the first event of the next flow are more than
  \<open>w\<close> seconds apart. The flows are not empty and, one after the other, hold exactly
  the events given, in their order.
\<close>

theorem flow_boundaries:
  assumes "sorted (map parsed_timestamp events)"
    and "group_into_flows w events = Some flows"
  shows "(\<forall>f\<in>set flows. \<forall>i. Suc i < length (flow_times f) \<longrightarrow>
            0 \<le> total_seconds (flow_times f ! Suc i - flow_times f ! i) \<and>
            total_seconds (flow_times f ! Suc i - flow_times f ! i) \<le> real_of_int w) \<and>
         (\<forall>j. Suc j < length flows \<longrightarrow>
            total_seconds (hd (flow_times (flows ! Suc j)) - last (flow_times (flows ! j)))
              > real_of_int w) \<and>
         (\<forall>f\<in>set flows. flow_times f \<noteq> []) \<and>
         concat (map flow_times flows) = map parsed_timestamp events"
proof -
  let ?gs = "event_groups w events []"
  have times: "map flow_times flows = map (map parsed_timestamp) ?gs"
    using assms(2) by (rule group_into_flows_times)
  have cat: "concat (map flow_times flows) = map parsed_timestamp events"
    using times event_groups_concat [of w events "[]"] by (simp add: map_concat [symmetric])
  have mem: "\<And>f. f \<in> set flows \<Longrightarrow> \<exists>g\<in>set ?gs. flow_times f = map parsed_timestamp g"
  proof -
    fix f assume "f \<in> set flows"
    then have "flow_times f \<in> set (map flow_times flows)" by simp
    then show "\<exists>g\<in>set ?gs. flow_times f = map parsed_timestamp g"
      unfolding times by auto
  qed
  have within: "\<forall>f\<in>set flows. \<forall>i. Suc i < length (flow_times f) \<longrightarrow>
            0 \<le> total_seconds (flow_times f ! Suc i - flow_times f ! i) \<and>
            total_seconds (flow_times f ! Suc i - flow_times f ! i) \<le> real_of_int w"
  proof (intro ballI allI impI)
    fix f i assume f: "f \<in> set flows" and i: "Suc i < length (flow_times f)"
    from mem [OF f] obtain g where g: "g \<in> set ?gs" "flow_times f = map parsed_timestamp g"
      by blast
    have "gaps_within (real_of_int w) (flow_times f)"
      using event_groups_within [of w "[]" events] g by simp
    then have le: "total_seconds (flow_times f ! Suc i - flow_times f ! i) \<le> real_of_int w"
      using i by (rule gaps_within_nth)
    have "flow_times f \<in> set (map flow_times flows)" using f by simp
    then have "sorted (flow_times f)"
      using assms(1) cat sorted_concat_member [of "map flow_times flows" "flow_times f"] by simp
    then have "flow_times f ! i \<le> flow_times f ! Suc i"
      using i by (simp add: sorted_iff_nth_mono)
    then have "0 \<le> total_seconds (flow_times f ! Suc i - flow_times f ! i)"
      by (simp add: total_seconds_def)
    with le show "0 \<le> total_seconds (flow_times f ! Suc i - flow_times f ! i) \<and>
            total_seconds (flow_times f ! Suc i - flow_times f ! i) \<le> real_of_int w"
      by simp
  qed
  have between: "\<forall>j. Suc j < length flows \<longrightarrow>
            total_seconds (hd (flow_times (flows ! Suc j)) - last (flow_times (flows ! j)))
              > real_of_int w"
  proof (intro allI impI)
    fix j assume j: "Suc j < length flows"
    have gb: "gaps_between (real_of_int w) (map flow_times flows)"
      using event_groups_between [of w events "[]"] times by simp
    have "total_seconds (hd (map flow_times flows ! Suc j) - last (map flow_times flows ! j))
            > real_of_int w"
      using gb j by (intro gaps_between_nth) simp_all
    then show "total_seconds (hd (flow_times (flows ! Suc j)) - last (flow_times (flows ! j)))
              > real_of_int w"
      using j by simp
  qed
  have ne: "\<forall>f\<in>set flows. flow_times f \<noteq> []"
  proof
    fix f assume "f \<in> set flows"
    from mem [OF this] obtain g where "g \<in> set ?gs" "flow_times f = map parsed_timestamp g"
      by blast
    then show "flow_times f \<noteq> []"
      using event_groups_nonempty [of w events "[]"] by auto
  qed
  from within between ne cat show ?thesis by blast
qed

subsection \<open>When the correlator returns\<close>

lemma summary_step_returns:
  "params_of (payload_of e) \<noteq> None \<Longrightarrow> summary_step e v \<noteq> None"
  by (auto simp: summary_step_def Let_def split: option.splits)

lemma summary_loop_returns:
  "\<forall>e\<in>set evs. summarisable e \<Longrightarrow> summary_loop evs v \<noteq> None"
proof (induction evs arbitrary: v)
  case Nil
  then show ?case by simp
next
  case (Cons e rest)
  then have "summary_step e v \<noteq> None"
    by (simp add: summarisable_def summary_step_returns)
  then obtain v1 where "summary_step e v = Some v1" by blast
  then show ?case using Cons by simp
qed

lemma build_timeline_returns:
  "\<forall>e\<in>set evs. summarisable e \<Longrightarrow> build_timeline evs \<noteq> None"
  by (induction evs) (auto simp: summarisable_def split: option.splits)

lemma create_flow_summary_returns:
  "\<forall>e\<in>set evs. summarisable e \<Longrightarrow> create_flow_summary evs \<noteq> None"
  using summary_loop_returns [of evs] build_timeline_returns [of evs]
  by (auto simp: create_flow_summary_def Let_def split: option.splits)

lemma append_summary_returns:
  "\<forall>e\<in>set cur. summarisable e \<Longrightarrow> append_summary flows cur \<noteq> None"
  using create_flow_summary_returns [of cur]
  by (auto simp: append_summary_def split: option.splits)

lemma group_loop_returns:
  "\<forall>e\<in>set cur. summarisable e \<Longrightarrow> \<forall>e\<in>set evs. summarisable e \<Longrightarrow>
   group_loop w evs cur flows \<noteq> None"
proof (induction evs arbitrary: cur flows)
  case Nil
  then show ?case by (simp add: append_summary_returns)
next
  case (Cons e rest)
  have e: "summarisable e" and r: "\<forall>e\<in>set rest. summarisable e"
    using Cons.prems(2) by simp_all
  show ?case
  proof (cases "cur = [] \<or> time_gap_seconds (last cur) e > real_of_int w")
    case True
    obtain flows1 where f1: "append_summary flows cur = Some flows1"
      using append_summary_returns [OF Cons.prems(1), of flows] by blast
    have "group_loop w rest [e] flows1 \<noteq> None"
      using e r by (intro Cons.IH) simp_all
    then show ?thesis using True f1 by simp
  next
    case False
    have "group_loop w rest (cur @ [e]) flows \<noteq> None"
      using e r Cons.prems(1) by (intro Cons.IH) auto
    then show ?thesis using False by simp
  qed
qed

lemma group_into_flows_returns:
  "\<forall>e\<in>set events. summarisable e \<Longrightarrow> \<exists>flows. group_into_flows w events = Some flows"
  using group_loop_returns [of "[]" events w "[]"]
  by (auto simp: group_into_flows_def)

subsection \<open>Evaluating the sample timelines\<close>

lemmas event_simps =
  captured_event_def event_of_message_def message_data_of_def
  tool_name_of_def dict_get_def arrow_def

lemmas flow_simps =
  group_into_flows_def append_summary_def create_flow_summary_def
  time_gap_seconds_def total_seconds_def summary_step_def extract_event_content_def
  determine_flow_success_def classify_event_type_def
  params_of_def payload_of_def direction_of_def dict_get_def arrow_def flow_times_def Let_def

lemma pause_events_eval:
  "pause_events =
     [\<lparr> ev_source = ''mcp_audit'', parsed_timestamp = 0, ev_server_name = Some ''weather'',
         ev_direction = Some (direction_value LLM_TO_MCP_CLIENT),
         ev_payload = Some [(''id'', JInt 1), (''method'', JStr ''tools/call''),
                            (''params'', JDict [(''name'', JStr ''get_weather'')])],
         ev_tool_name = JStr ''get_weather'', ev_user_prompt = None, ev_llm_reasoning = None,
         ev_tools_selected = [], ev_success = None \<rparr>,
      \<lparr> ev_source = ''mcp_audit'', parsed_timestamp = 50000, ev_server_name = Some ''weather'',
         ev_direction = Some (direction_value MCP_CLIENT_TO_SERVER),
         ev_payload = Some [(''id'', JInt 1), (''result'', JDict [(''temp'', JInt 15)])],
         ev_tool_name = JNull, ev_user_prompt = None, ev_llm_reasoning = None,
         ev_tools_selected = [], ev_success = None \<rparr>,
      \<lparr> ev_source = ''mcp_audit'', parsed_timestamp = 60000000, ev_server_name = Some ''weather'',
         ev_direction = Some (direction_value LLM_TO_MCP_CLIENT),
         ev_payload = Some [(''id'', JInt 2), (''method'', JStr ''tools/call''),
                            (''params'', JDict [(''name'', JStr ''get_weather'')])],
         ev_tool_name = JStr ''get_weather'', ev_user_prompt = None, ev_llm_reasoning = None,
         ev_tools_selected = [], ev_success = None \<rparr>]"
  by (simp add: pause_events_def event_simps)

lemma pause_flows_times:
  "map_option (map flow_times) (group_into_flows 30 pause_events) = Some [[0, 50000], [60000000]]"
  by (simp add: pause_events_eval flow_simps)

lemma failed_call_events_eval:
  "failed_call_events =
     [\<lparr> ev_source = ''mcp_audit'', parsed_timestamp = 0, ev_server_name = Some ''weather'',
         ev_direction = Some (direction_value LLM_TO_MCP_CLIENT),
         ev_payload = Some [(''id'', JInt 1), (''method'', JStr ''tools/list'')],
         ev_tool_name = JNull, ev_user_prompt = None, ev_llm_reasoning = None,
         ev_tools_selected = [], ev_success = None \<rparr>,
      \<lparr> ev_source = ''mcp_audit'', parsed_timestamp = 10000, ev_server_name = Some ''weather'',
         ev_direction = Some (direction_value MCP_CLIENT_TO_SERVER),
         ev_payload = Some [(''id'', JInt 1), (''result'', JDict [(''tools'', JList [])])],
         ev_tool_name = JNull, ev_user_prompt = None, ev_llm_reasoning = None,
         ev_tools_selected = [], ev_success = None \<rparr>,
      \<lparr> ev_source = ''mcp_audit'', parsed_timestamp = 20000, ev_server_name = Some ''weather'',
         ev_direction = Some (direction_value LLM_TO_MCP_CLIENT),
         ev_payload = Some [(''id'', JInt 2), (''method'', JStr ''tools/call''),
                            (''params'', JDict [(''name'', JStr ''get_weather'')])],
         ev_tool_name = JStr ''get_weather'', ev_user_prompt = None, ev_llm_reasoning = None,
         ev_tools_selected = [], ev_success = None \<rparr>,
      \<lparr> ev_source = ''mcp_audit'', parsed_timestamp = 70000, ev_server_name = Some ''weather'',
         ev_direction = Some (direction_value MCP_CLIENT_TO_SERVER),
         ev_payload = Some [(''id'', JInt 2),
                            (''error'', JDict [(''code'', JInt (- 32001)), (''message'', JStr ''401'')])],
         ev_tool_name = JNull, ev_user_prompt = None, ev_llm_reasoning = None,
         ev_tools_selected = [], ev_success = None \<rparr>]"
  by (simp add: failed_call_events_def event_simps)

lemma failed_call_flows:
  "map_option (map flow_success) (group_into_flows 30 failed_call_events) = Some [True]"
  "map_option (map event_count) (group_into_flows 30 failed_call_events) = Some [4]"
  by (simp_all add: failed_call_events_eval flow_simps)

lemma failed_call_groups: "event_groups 30 failed_call_events [] = [failed_call_events]"
  by (simp add: failed_call_events_eval time_gap_seconds_def total_seconds_def)

lemma failed_call_spec: "\<not> spec_flow_success failed_call_events"
  by (simp add: failed_call_events_eval spec_flow_success_def is_tool_call_request_def
      is_result_response_to_def payload_of_def direction_of_def dict_get_def arrow_def)

subsection \<open>C2: witness\<close>

theorem flow_boundaries_witness:
  "sorted (map parsed_timestamp pause_events) \<and>
   (\<exists>flows. group_into_flows 30 pause_events = Some flows \<and>
      map flow_times flows = [[0, 50000], [60000000]] \<and>
      (\<forall>f\<in>set flows. \<forall>i. Suc i < length (flow_times f) \<longrightarrow>
            0 \<le> total_seconds (flow_times f ! Suc i - flow_times f ! i) \<and>
            total_seconds (flow_times f ! Suc i - flow_times f ! i) \<le> real_of_int 30) \<and>
      (\<forall>j. Suc j < length flows \<longrightarrow>
            total_seconds (hd (flow_times (flows ! Suc j)) - last (flow_times (flows ! j)))
              > real_of_int 30))"
proof -
  have s: "sorted (map parsed_timestamp pause_events)"
    by (simp add: pause_events_eval)
  obtain flows where g: "group_into_flows 30 pause_events = Some flows"
    and t: "map flow_times flows = [[0, 50000], [60000000]]"
    using pause_flows_times by (cases "group_into_flows 30 pause_events") auto
  have b: "(\<forall>f\<in>set flows. \<forall>i. Suc i < length (flow_times f) \<longrightarrow>
            0 \<le> total_seconds (flow_times f ! Suc i - flow_times f ! i) \<and>
            total_seconds (flow_times f ! Suc i - flow_times f ! i) \<le> real_of_int 30)"
    "(\<forall>j. Suc j < length flows \<longrightarrow>
            total_seconds (hd (flow_times (flows ! Suc j)) - last (flow_times (flows ! j)))
              > real_of_int 30)"
    using flow_boundaries [OF s g] by blast+
  show ?thesis
    using s g t b by (intro conjI exI [of _ flows])
qed

subsection \<open>C3: the success of a flow\<close>

text \<open>
  C3 as stated fails. The four events of the failed tool call make one flow. Its only
  \<open>tools/call\<close> request is answered with an error, and it holds no LLM decision, so the
  rule of the specification gives \<open>false\<close>; the correlator reports \<open>success = true\<close>,
  because the result of the earlier \<open>tools/list\<close> request counts as the response.
\<close>

theorem flow_success_counterexample:
  "map_option (map flow_success) (group_into_flows 30 failed_call_events) = Some [True] \<and>
   map_option (map event_count) (group_into_flows 30 failed_call_events) = Some [4] \<and>
   event_groups 30 failed_call_events [] = [failed_call_events] \<and>
   \<not> spec_flow_success failed_call_events"
  by (simp add: failed_call_flows failed_call_groups failed_call_spec)

text \<open>
  C3, amended. The \<open>success\<close> of a flow is true iff some LLM decision event of the flow
  has \<open>success = true\<close>, or the flow holds a \<open>tools/call\<close> request sent by the host and
  also some event whose direction names the server and whose payload has a result that
  is not null. The result need not answer that request: ids are not compared.
\<close>

theorem flow_success_rule:
  assumes "group_into_flows w events = Some flows"
  shows "list_all2
           (\<lambda>g f. flow_success f \<longleftrightarrow>
              (\<exists>e\<in>set g. ev_source e = ''llm_decision'' \<and> ev_success e = Some True) \<or>
              ((\<exists>e\<in>set g. ev_direction e = Some (direction_value LLM_TO_MCP_CLIENT) \<and>
                           dict_get (payload_of e) ''method'' = JStr ''tools/call'') \<and>
               (\<exists>e\<in>set g. contains (direction_of e) ''server'' \<and>
                           dict_get (payload_of e) ''result'' \<noteq> JNull)))
           (event_groups w events []) flows"
proof -
  have "list_all2 (\<lambda>g f. create_flow_summary g = Some f) (event_groups w events []) flows"
    using assms by (rule group_into_flows_groups)
  then show ?thesis
  proof (rule list_all2_mono)
    fix g f assume "create_flow_summary g = Some f"
    then have "flow_success f = determine_flow_success g"
      by (rule create_flow_summary_success)
    then show "flow_success f \<longleftrightarrow>
              (\<exists>e\<in>set g. ev_source e = ''llm_decision'' \<and> ev_success e = Some True) \<or>
              ((\<exists>e\<in>set g. ev_direction e = Some (direction_value LLM_TO_MCP_CLIENT) \<and>
                           dict_get (payload_of e) ''method'' = JStr ''tools/call'') \<and>
               (\<exists>e\<in>set g. contains (direction_of e) ''server'' \<and>
                           dict_get (payload_of e) ''result'' \<noteq> JNull))"
      by (auto simp: determine_flow_success_def Let_def list_ex_iff split: option.splits)
  qed
qed

theorem flow_success_rule_witness:
  "\<exists>flows. group_into_flows 30 failed_call_events = Some flows \<and>
     map flow_success flows = [True] \<and>
     list_all2
           (\<lambda>g f. flow_success f \<longleftrightarrow>
              (\<exists>e\<in>set g. ev_source e = ''llm_decision'' \<and> ev_success e = Some True) \<or>
              ((\<exists>e\<in>set g. ev_direction e = Some (direction_value LLM_TO_MCP_CLIENT) \<and>
                           dict_get (payload_of e) ''method'' = JStr ''tools/call'') \<and>
               (\<exists>e\<in>set g. contains (direction_of e) ''server'' \<and>
                           dict_get (payload_of e) ''result'' \<noteq> JNull)))
           [failed_call_events] flows"
proof -
  obtain flows where g: "group_into_flows 30 failed_call_events = Some flows"
    and t: "map flow_success flows = [True]"
    using failed_call_flows(1) by (cases "group_into_flows 30 failed_call_events") auto
  from flow_success_rule [OF g] g t show ?thesis
    by (auto simp: failed_call_groups)
qed

section \<open>Properties of the config rewriter\<close>

subsection \<open>C7: installing twice\<close>

lemma map_of_dict_set: "map_of (dict_set k v d) k = Some v"
  by (induction d) auto

lemma is_already_proxied_proxy_entry:
  "is_python_command (python_cmd e) \<Longrightarrow> is_already_proxied (proxy_entry e n sc)"
  by (simp add: is_already_proxied_def proxy_entry_def Let_def)

lemma create_proxy_config_idempotent:
  assumes "is_python_command (python_cmd e)"
    and "create_proxy_config e n (Some c) = Some c'"
  shows "create_proxy_config e n (Some c') = Some c'"
proof (cases "mcpServers c")
  case None
  then show ?thesis using assms(2)
    by (auto simp: create_proxy_config_def split: if_splits)
next
  case (Some servers)
  show ?thesis
  proof (cases "map_of servers n")
    case None
    then show ?thesis using assms(2) Some
      by (auto simp: create_proxy_config_def split: if_splits)
  next
    case (Some sc)
    note sc = this
    show ?thesis
    proof (cases "is_already_proxied sc")
      case True
      then show ?thesis using assms(2) sc \<open>mcpServers c = Some servers\<close>
        by (auto simp: create_proxy_config_def split: if_splits)
    next
      case False
      then have c': "c' = c\<lparr> mcpServers := Some (dict_set n (proxy_entry e n sc) servers) \<rparr>"
        using assms(2) sc \<open>mcpServers c = Some servers\<close>
        by (auto simp: create_proxy_config_def split: if_splits)
      show ?thesis
        using assms(1) by (simp add: c' create_proxy_config_def map_of_dict_set
            is_already_proxied_proxy_entry)
    qed
  qed
qed

lemma setup_twice_unchanged:
  assumes "is_python_command (python_cmd e)"
  shows "fst (setup_proxy_for_server e n (snd (setup_proxy_for_server e n st))) =
           fst (setup_proxy_for_server e n st) \<and>
         project_file (snd (setup_proxy_for_server e n (snd (setup_proxy_for_server e n st)))) =
           project_file (snd (setup_proxy_for_server e n st)) \<and>
         home_file (snd (setup_proxy_for_server e n (snd (setup_proxy_for_server e n st)))) =
           home_file (snd (setup_proxy_for_server e n st))"
proof (cases "project_file st")
  case None
  note pf = this
  show ?thesis
  proof (cases "home_file st")
    case None
    then show ?thesis using pf by (simp add: setup_proxy_for_server_def)
  next
    case (Some loaded)
    show ?thesis
    proof (cases "create_proxy_config e n (Some loaded)")
      case None
      then show ?thesis using pf Some by (simp add: setup_proxy_for_server_def)
    next
      case (Some c')
      from create_proxy_config_idempotent [OF assms Some]
      show ?thesis using pf Some \<open>home_file st = Some loaded\<close>
        by (simp add: setup_proxy_for_server_def)
    qed
  qed
next
  case (Some loaded)
  note pf = this
  show ?thesis
  proof (cases "create_proxy_config e n (Some loaded)")
    case None
    then show ?thesis using pf by (simp add: setup_proxy_for_server_def)
  next
    case (Some c')
    from create_proxy_config_idempotent [OF assms Some]
    show ?thesis using pf Some
      by (simp add: setup_proxy_for_server_def)
  qed
qed

lemma is_already_proxied_iff:
  "is_already_proxied sc \<longleftrightarrow>
     is_python_command (case command sc of None \<Rightarrow> [] | Some c \<Rightarrow> c) \<and>
     take 2 (case args sc of None \<Rightarrow> [] | Some a \<Rightarrow> a) = [''-m'', proxy_runner_module]"
proof -
  have "\<And>as :: string list. (length as > 0 \<and> as ! 0 = x \<and> length as > 1 \<and> as ! 1 = y) \<longleftrightarrow> take 2 as = [x, y]" for x y
  proof -
    fix as :: "string list"
    show "(length as > 0 \<and> as ! 0 = x \<and> length as > 1 \<and> as ! 1 = y) \<longleftrightarrow> take 2 as = [x, y]"
      by (cases as; cases "tl as") (auto simp: numeral_2_eq_2)
  qed
  then show ?thesis
    by (simp add: is_already_proxied_def Let_def)
qed


lemma venv_host_python: "is_python_command (python_cmd venv_host)"
  by (simp add: is_python_command_def python_cmd_def venv_host_def endswith_def)

lemma fresh_install:
  "setup_proxy_for_server venv_host ''mastra'' fresh_state = (True, proxied_state)"
  by (simp add: setup_proxy_for_server_def fresh_state_def plain_config_def create_proxy_config_def
      is_already_proxied_def is_python_command_def endswith_def proxy_entry_def python_cmd_def
      venv_host_def proxied_state_def proxied_config_def Let_def)

lemma second_install:
  "setup_proxy_for_server venv_host ''mastra'' proxied_state = (True, proxied_state)"
  by (simp add: setup_proxy_for_server_def create_proxy_config_def proxied_state_def
      proxied_config_def is_already_proxied_def is_python_command_def endswith_def Let_def)

lemma proxied_differs: "project_file proxied_state \<noteq> project_file fresh_state"
  by (simp add: proxied_state_def proxied_config_def fresh_state_def plain_config_def)

text \<open>
  C7 as stated fails. On a host with a virtual environment the first install rewrites the
  entry; the second install finds it proxied, writes the same configuration back, and
  returns \<open>True\<close> as the first did: it does not fail.
\<close>

theorem second_install_counterexample:
  "fst (setup_proxy_for_server venv_host ''mastra'' fresh_state) = True \<and>
   project_file (snd (setup_proxy_for_server venv_host ''mastra'' fresh_state)) \<noteq>
     project_file fresh_state \<and>
   fst (setup_proxy_for_server venv_host ''mastra''
          (snd (setup_proxy_for_server venv_host ''mastra'' fresh_state))) = True"
  by (simp add: fresh_install second_install proxied_differs)

text \<open>
  C7, amended. Where the interpreter the rewriter chooses is one its recursion check
  recognises (the interpreter of the virtual environment, or \<open>python\<close>), a second
  \<open>install(s)\<close> with no \<open>restore()\<close> in between returns what the first returned
  (\<open>True\<close> when a configuration was found and loaded: the entry is skipped, the call
  does not fail) and leaves both configuration files as the first call left them. An
  entry counts as already proxied iff its command is \<open>python\<close> or ends in
  \<open>/bin/python\<close> or \<open>/bin/python3\<close>, and its first two args are \<open>-m\<close> and the
  proxy-runner module.
\<close>

theorem install_twice:
  "(is_python_command (python_cmd e) \<longrightarrow>
      fst (setup_proxy_for_server e n (snd (setup_proxy_for_server e n st))) =
        fst (setup_proxy_for_server e n st) \<and>
      project_file (snd (setup_proxy_for_server e n (snd (setup_proxy_for_server e n st)))) =
        project_file (snd (setup_proxy_for_server e n st)) \<and>
      home_file (snd (setup_proxy_for_server e n (snd (setup_proxy_for_server e n st)))) =
        home_file (snd (setup_proxy_for_server e n st))) \<and>
   (is_already_proxied sc \<longleftrightarrow>
      is_python_command (case command sc of None \<Rightarrow> [] | Some c \<Rightarrow> c) \<and>
      take 2 (case args sc of None \<Rightarrow> [] | Some a \<Rightarrow> a) = [''-m'', proxy_runner_module])"
  using setup_twice_unchanged [of e n st] is_already_proxied_iff [of sc] by blast

theorem install_twice_witness:
  "is_python_command (python_cmd venv_host) \<and>
   fst (setup_proxy_for_server venv_host ''mastra''
          (snd (setup_proxy_for_server venv_host ''mastra'' fresh_state))) = True \<and>
   project_file (snd (setup_proxy_for_server venv_host ''mastra''
          (snd (setup_proxy_for_server venv_host ''mastra'' fresh_state)))) =
     project_file (snd (setup_proxy_for_server venv_host ''mastra'' fresh_state)) \<and>
   is_already_proxied
     \<lparr> command = Some ''/work/.venv/bin/python'',
        args = Some [''-m'', proxy_runner_module, ''--target-command'', ''npx''],
        cwd = None, env = None \<rparr>"
proof -
  have a: "is_python_command ''/work/.venv/bin/python''"
    by (simp add: is_python_command_def endswith_def)
  show ?thesis
    using a venv_host_python
      install_twice [where e = venv_host and n = "''mastra''" and st = fresh_state
        and sc = "\<lparr> command = Some ''/work/.venv/bin/python'',
          args = Some [''-m'', proxy_runner_module, ''--target-command'', ''npx''],
          cwd = None, env = None \<rparr>"]
    by (simp add: fresh_install second_install)
qed

text \<open>
  Outside that case the check misses what the rewriter itself writes: with \<open>python3\<close>
  found on the path and no virtual environment the command written is \<open>python3\<close>,
  which the check does not recognise, and a second install wraps the proxy again.
\<close>

lemma python3_host_wraps_twice:
  "python_cmd python3_host = ''python3'' \<and> \<not> is_python_command ''python3'' \<and>
   map_option (\<lambda>c. map_option (\<lambda>sv. map_option args (map_of sv ''mastra'')) (mcpServers c))
     (project_file (snd (setup_proxy_for_server python3_host ''mastra''
        (snd (setup_proxy_for_server python3_host ''mastra'' fresh_state))))) =
   Some (Some (Some (Some
     [''-m'', proxy_runner_module, ''--target-command'', ''python3'', ''--target-args'',
      ''-m'', proxy_runner_module, ''--target-command'', ''npx'', ''--target-args'',
      ''-y'', ''mastra-server''])))"
  by (simp add: setup_proxy_for_server_def fresh_state_def plain_config_def create_proxy_config_def
      is_already_proxied_def is_python_command_def endswith_def proxy_entry_def python_cmd_def
      python3_host_def Let_def)

subsection \<open>C8: unwrapping nested proxies\<close>

lemma index_of_proxy_args:
  "index_of (proxy_args_of c as) ''--target-command'' = Some 2"
  "c \<noteq> ''--target-args'' \<Longrightarrow> index_of (proxy_args_of c as) ''--target-args'' = Some 4"
  by (simp_all add: proxy_args_of_def proxy_runner_module_def)

lemma starts_with_runner_proxy_args: "starts_with_runner (proxy_args_of c as)"
  by (simp add: starts_with_runner_def proxy_args_of_def)

lemma unwrap_loop_proxy_args:
  assumes "c \<noteq> ''--target-args''"
  shows "unwrap_loop (proxy_args_of c as) d =
           (if c = ''python'' \<and> length as \<ge> 2 then unwrap_loop as (d + 1)
            else (Some c, Some as, d + 1))"
proof -
  have "proxy_args_of c as ! 3 = c" "drop 5 (proxy_args_of c as) = as"
    "length (proxy_args_of c as) = 5 + length as"
    by (simp_all add: proxy_args_of_def)
  then show ?thesis
    using assms
    by (subst unwrap_loop.simps)
       (simp add: index_of_proxy_args starts_with_runner_proxy_args Let_def del: unwrap_loop.simps)
qed

lemma nested_proxy_args_length: "length (nested_proxy_args k c as) \<ge> 2"
  by (cases k) (simp_all add: proxy_args_of_def)

lemma unwrap_nested:
  assumes "c \<noteq> ''--target-args''" and "\<not> (c = ''python'' \<and> length as \<ge> 2)"
  shows "unwrap_loop (nested_proxy_args k c as) d = (Some c, Some as, d + k + 1)"
proof (induction k arbitrary: d)
  case 0
  then show ?case using assms by (auto simp add: unwrap_loop_proxy_args simp del: unwrap_loop.simps)
next
  case (Suc k)
  have "unwrap_loop (nested_proxy_args (Suc k) c as) d =
          unwrap_loop (nested_proxy_args k c as) (d + 1)"
    using nested_proxy_args_length [of k c as]
    by (simp add: unwrap_loop_proxy_args del: unwrap_loop.simps)
  then show ?case using Suc.IH [of "d + 1"] by simp
qed

lemma python_server_wrapped:
  "create_proxy_config python_host ''srv'' (Some python_server_config) =
     Some \<lparr> mcpServers = Some [(''srv'',
            \<lparr> command = Some ''python'',
               args = Some [''-m'', proxy_runner_module, ''--target-command'', ''python'',
                            ''--target-args'', ''server.py'', ''--port''],
               cwd = Some ''/work'',
               env = Some [(''MCP_TARGET_CWD'', ''/work''), (''MCP_SERVER_NAME'', ''srv'')] \<rparr>)],
            other_keys = [] \<rparr>"
  by (simp add: python_server_config_def create_proxy_config_def
      is_already_proxied_def is_python_command_def endswith_def proxy_entry_def python_cmd_def
      python_host_def Let_def)

lemma python_server_extract:
  "extract_original_from_proxy_args
     [''-m'', proxy_runner_module, ''--target-command'', ''python'',
      ''--target-args'', ''server.py'', ''--port''] =
   (Some ''server.py'', Some [''--port''], 1)"
proof -
  have "unwrap_loop (proxy_args_of ''python'' [''server.py'', ''--port'']) 0 =
          unwrap_loop [''server.py'', ''--port''] 1"
    by (simp add: unwrap_loop_proxy_args del: unwrap_loop.simps)
  also have "\<dots> = (Some ''server.py'', Some [''--port''], 1)"
    by (subst unwrap_loop.simps) (simp add: starts_with_runner_def del: unwrap_loop.simps)
  finally show ?thesis
    by (simp add: extract_original_from_proxy_args_def proxy_args_of_def)
qed

text \<open>
  C8 on the code. A server started as \<open>python server.py --port\<close> is wrapped once by an
  install on a host whose interpreter is \<open>python\<close>. Unwrapping the entry gives the
  command \<open>server.py\<close> with the single argument \<open>--port\<close> at depth 1, not the original
  command \<open>python\<close> with its two arguments.
\<close>

theorem unwrap_python_server:
  "map_option detect_recursive_config
     (create_proxy_config python_host ''srv'' (Some python_server_config)) =
   Some \<lparr> is_recursive = True, recursion_depth = 1, original_command = Some ''server.py'',
          original_args = Some [''--port''], detected_server = Some ''srv'' \<rparr>"
  by (simp add: python_server_wrapped detect_recursive_config_def python_server_extract)

section \<open>Properties of the cognitive scorer\<close>

subsection \<open>C9: prompt complexity\<close>

lemma three_code: "calculate_prompt_complexity three_actions = 49"
  by code_simp

lemma three_spec: "spec_prompt_complexity (user_query three_actions) = 37"
  by code_simp

text \<open>
  C9 as stated fails. The prompt \<open>Create update delete\<close> is no placeholder and names
  three action verbs. The scorer adds 12 for each verb but one, \<open>20 + 5 + 24 = 49\<close>; the
  claim adds 12 for each verb beyond two, \<open>20 + 5 + 12 = 37\<close>.
\<close>

theorem prompt_complexity_counterexample:
  "\<not> is_placeholder (lower (user_query three_actions)) \<and>
   count_hits action_verbs (lower (user_query three_actions)) = 3 \<and>
   calculate_prompt_complexity three_actions = 49 \<and>
   spec_prompt_complexity (user_query three_actions) = 37 \<and>
   calculate_prompt_complexity three_actions \<noteq> spec_prompt_complexity (user_query three_actions)"
proof -
  have "\<not> is_placeholder (lower (user_query three_actions))" by code_simp
  moreover have "count_hits action_verbs (lower (user_query three_actions)) = 3" by code_simp
  ultimately show ?thesis by (simp add: three_code three_spec)
qed

lemma word_count_fold:
  "(if 10 < n then x + 25 else if 5 < n then x + 15 else if 2 < n then x + 5 else x) =
   x + word_count_bonus n"
  by (simp add: word_count_bonus_def)

lemma temporal_fold:
  "(if list_ex (contains q) time_words then x + 15 else x) = x + temporal_bonus q"
  by (simp add: temporal_bonus_def)

lemma numeric_fold:
  "(if list_ex is_digit q \<or> list_ex (contains q) quantifier_words then x + 10 else x) =
   x + numeric_bonus q"
  by (simp add: numeric_bonus_def)

lemma action_fold:
  "(if 2 < n then x + real (n - 1) * 12 else x) =
   x + (if 2 < n then 12 * real (n - 1) else 0)"
  by simp

lemma prompt_complexity_closed_form:
  "calculate_prompt_complexity i =
     (let q = lower (user_query i) in
      if is_placeholder q then 20
      else min 100
             (20 + word_count_bonus (length (split q)) +
              8 * real (count_hits technical_indicators q) +
              10 * real (count_hits complexity_indicators q) +
              (if count_hits action_verbs q > 2
               then 12 * real (count_hits action_verbs q - 1) else 0) +
              temporal_bonus q + numeric_bonus q))"
  unfolding calculate_prompt_complexity_def Let_def word_count_fold temporal_fold
    numeric_fold action_fold
  by (simp add: min.commute mult.commute)

text \<open>
  C9, amended. For a prompt that is not a placeholder the prompt-complexity sub-score is
  \<open>min(100, 20 + word-count bonus + 8 per technical term + 10 per logic term + action
  bonus + 15 if a temporal word is present + 10 if a digit or a quantifier word is
  present)\<close>, where the action bonus is 12 for each action verb but one when more than
  two are present, and 0 otherwise. For a placeholder prompt (the lower-cased prompt
  contains \<open>[inferred]\<close>, \<open>user request requiring\<close> or \<open>unknown\<close>, or is shorter
  than 3 characters once stripped) it is exactly 20.
\<close>

theorem prompt_complexity_formula:
  "calculate_prompt_complexity i =
     (let q = lower (user_query i) in
      if is_placeholder q then 20
      else min 100
             (20 + word_count_bonus (length (split q)) +
              8 * real (count_hits technical_indicators q) +
              10 * real (count_hits complexity_indicators q) +
              (if count_hits action_verbs q > 2
               then 12 * real (count_hits action_verbs q - 1) else 0) +
              temporal_bonus q + numeric_bonus q))"
  by (rule prompt_complexity_closed_form)

theorem prompt_complexity_formula_witness:
  "calculate_prompt_complexity three_actions = 49 \<and>
   (let q = lower (user_query three_actions) in
      if is_placeholder q then 20
      else min 100
             (20 + word_count_bonus (length (split q)) +
              8 * real (count_hits technical_indicators q) +
              10 * real (count_hits complexity_indicators q) +
              (if count_hits action_verbs q > 2
               then 12 * real (count_hits action_verbs q - 1) else 0) +
              temporal_bonus q + numeric_bonus q)) = (49 :: real)"
  using prompt_complexity_formula [of three_actions] by (simp add: three_code)

subsection \<open>Bounds of the sub-scores\<close>

lemma word_count_bonus_nonneg: "0 \<le> word_count_bonus n"
  by (simp add: word_count_bonus_def)

lemma temporal_bonus_nonneg: "0 \<le> temporal_bonus q"
  by (simp add: temporal_bonus_def)

lemma numeric_bonus_nonneg: "0 \<le> numeric_bonus q"
  by (simp add: numeric_bonus_def)

lemma prompt_complexity_bounds:
  "20 \<le> calculate_prompt_complexity i \<and> calculate_prompt_complexity i \<le> 100"
proof -
  let ?q = "lower (user_query i)"
  have "0 \<le> word_count_bonus (length (split ?q)) +
              8 * real (count_hits technical_indicators ?q) +
              10 * real (count_hits complexity_indicators ?q) +
              (if count_hits action_verbs ?q > 2
               then 12 * real (count_hits action_verbs ?q - 1) else 0) +
              temporal_bonus ?q + numeric_bonus ?q"
    using word_count_bonus_nonneg [of "length (split ?q)"] temporal_bonus_nonneg [of ?q]
      numeric_bonus_nonneg [of ?q]
    by simp
  then show ?thesis
    unfolding prompt_complexity_closed_form Let_def by (simp add: add.assoc)
qed

lemma context_switching_bounds:
  "0 \<le> calculate_context_switching i \<and> calculate_context_switching i \<le> 100"
  by (simp add: calculate_context_switching_def Let_def)

lemma retry_frustration_bounds:
  "10 \<le> fst (calculate_retry_frustration i) \<and> fst (calculate_retry_frustration i) \<le> 100"
  by (auto simp: calculate_retry_frustration_def Let_def split: option.splits)

lemma auth_penalties_nonneg: "0 \<le> sum_list (map auth_penalty_of ts)"
  by (induction ts) (simp_all add: auth_penalty_of_def)

lemma param_penalties_nonneg: "0 \<le> sum_list (map param_penalty_of ts)"
  by (induction ts) (simp_all add: param_penalty_of_def)

lemma config_keyword_penalties_nonneg: "0 \<le> sum_list (map (config_keyword_penalty_of ps) ts)"
  by (induction ts) (simp_all add: config_keyword_penalty_of_def split: option.splits)

lemma configuration_friction_bounds:
  "10 \<le> fst (calculate_configuration_friction ps i) \<and>
   fst (calculate_configuration_friction ps i) \<le> 100"
proof -
  have "0 \<le> real_of_int (sum_list (map auth_penalty_of (message_traces i)))"
    "0 \<le> real_of_int (sum_list (map param_penalty_of (message_traces i)))"
    "0 \<le> real_of_int (sum_list (map (config_keyword_penalty_of ps) (message_traces i)))"
    using auth_penalties_nonneg param_penalties_nonneg config_keyword_penalties_nonneg
    by simp_all
  then show ?thesis
    by (auto simp: calculate_configuration_friction_def Let_def split: option.splits)
qed

lemma integration_cognition_bounds:
  "20 \<le> calculate_integration_cognition i \<and> calculate_integration_cognition i \<le> 100"
  by (simp add: calculate_integration_cognition_def Let_def)

lemma weights_sum:
  "weight_prompt_complexity + weight_context_switching + weight_retry_frustration +
   weight_configuration_friction + weight_integration_cognition = 1"
  by (simp add: weight_prompt_complexity_def weight_context_switching_def
      weight_retry_frustration_def weight_configuration_friction_def
      weight_integration_cognition_def)

lemma overall_weighted_sum:
  assumes "0 \<le> p \<and> p \<le> 100" "0 \<le> c \<and> c \<le> 100" "0 \<le> r \<and> r \<le> 100"
    "0 \<le> f \<and> f \<le> 100" "0 \<le> g \<and> g \<le> 100"
  shows "calculate_overall_cognitive_load p c r f g =
           p * (15 / 100) + c * (20 / 100) + r * (30 / 100) + f * (25 / 100) + g * (10 / 100)"
    and "0 \<le> calculate_overall_cognitive_load p c r f g"
    and "calculate_overall_cognitive_load p c r f g \<le> 100"
  using assms
  by (simp_all add: calculate_overall_cognitive_load_def weight_prompt_complexity_def
      weight_context_switching_def weight_retry_frustration_def
      weight_configuration_friction_def weight_integration_cognition_def Let_def)

lemma sub_scores_valid:
  "valid_score (calculate_prompt_complexity i)"
  "valid_score (calculate_context_switching i)"
  "valid_score (fst (calculate_retry_frustration i))"
  "valid_score (fst (calculate_configuration_friction ps i))"
  "valid_score (calculate_integration_cognition i)"
  using prompt_complexity_bounds [of i] context_switching_bounds [of i]
    retry_frustration_bounds [of i] configuration_friction_bounds [of ps i]
    integration_cognition_bounds [of i]
  by (simp_all add: valid_score_def)

lemma overall_valid:
  "valid_score (calculate_overall_cognitive_load (calculate_prompt_complexity i)
     (calculate_context_switching i) (fst (calculate_retry_frustration i))
     (fst (calculate_configuration_friction ps i)) (calculate_integration_cognition i))"
  using sub_scores_valid(1,2,3,5) [of i] sub_scores_valid(4) [of ps i]
  by (simp add: valid_score_def overall_weighted_sum(2,3))

lemma analyze_interaction_scores:
  "overall_score (analyze_interaction ps i) =
     calculate_overall_cognitive_load (calculate_prompt_complexity i)
       (calculate_context_switching i) (fst (calculate_retry_frustration i))
       (fst (calculate_configuration_friction ps i)) (calculate_integration_cognition i)"
  "prompt_complexity (analyze_interaction ps i) = calculate_prompt_complexity i"
  "context_switching (analyze_interaction ps i) = calculate_context_switching i"
  "retry_frustration (analyze_interaction ps i) = fst (calculate_retry_frustration i)"
  "configuration_friction (analyze_interaction ps i) = fst (calculate_configuration_friction ps i)"
  "integration_cognition (analyze_interaction ps i) = calculate_integration_cognition i"
  using sub_scores_valid(1,2,3,5) [of i] sub_scores_valid(4) [of ps i] overall_valid [of i ps]
  by (simp_all add: analyze_interaction_def Let_def case_prod_beta)


subsection \<open>C4: the overall score\<close>

text \<open>
  C4. For every interaction the scorer analyses, the overall score is
  \<open>prompt_complexity * 0.15 + context_switching * 0.20 + retry_frustration * 0.30 +
  configuration_friction * 0.25 + integration_cognition * 0.10\<close> (the cap at 100 never
  bites, the sub-scores being at most 100), and the five weights sum to 1.
\<close>

theorem overall_is_weighted_sum:
  "overall_score (analyze_interaction ps i) =
     prompt_complexity (analyze_interaction ps i) * (15 / 100) +
     context_switching (analyze_interaction ps i) * (20 / 100) +
     retry_frustration (analyze_interaction ps i) * (30 / 100) +
     configuration_friction (analyze_interaction ps i) * (25 / 100) +
     integration_cognition (analyze_interaction ps i) * (10 / 100) \<and>
   weight_prompt_complexity = 15 / 100 \<and> weight_context_switching = 20 / 100 \<and>
   weight_retry_frustration = 30 / 100 \<and> weight_configuration_friction = 25 / 100 \<and>
   weight_integration_cognition = 10 / 100 \<and>
   weight_prompt_complexity + weight_context_switching + weight_retry_frustration +
     weight_configuration_friction + weight_integration_cognition = 1"
proof -
  have "calculate_overall_cognitive_load (calculate_prompt_complexity i)
       (calculate_context_switching i) (fst (calculate_retry_frustration i))
       (fst (calculate_configuration_friction ps i)) (calculate_integration_cognition i) =
     calculate_prompt_complexity i * (15 / 100) +
     calculate_context_switching i * (20 / 100) +
     fst (calculate_retry_frustration i) * (30 / 100) +
     fst (calculate_configuration_friction ps i) * (25 / 100) +
     calculate_integration_cognition i * (10 / 100)"
    using sub_scores_valid(1,2,3,5) [of i] sub_scores_valid(4) [of ps i]
    by (intro overall_weighted_sum(1)) (simp_all add: valid_score_def)
  then show ?thesis
    using weights_sum
    by (simp add: analyze_interaction_scores weight_prompt_complexity_def
        weight_context_switching_def weight_retry_frustration_def
        weight_configuration_friction_def weight_integration_cognition_def)
qed

subsection \<open>The averaged report\<close>

lemma round1_bounds:
  assumes "0 \<le> x" "x \<le> 100"
  shows "0 \<le> round1 x \<and> round1 x \<le> 100"
proof -
  let ?y = "x * 10"
  let ?f = "\<lfloor>?y\<rfloor>"
  have f0: "0 \<le> ?f" using assms(1) by simp
  have f1: "?f \<le> 1000" using assms(2) by (simp add: floor_le_iff)
  have f2: "?y - real_of_int ?f \<ge> 1 / 2 \<Longrightarrow> ?f + 1 \<le> 1000"
  proof -
    assume h: "?y - real_of_int ?f \<ge> 1 / 2"
    have "real_of_int ?f + 1 / 2 \<le> 1000" using h assms(2) by linarith
    then have "real_of_int ?f < 1000" by linarith
    then show "?f + 1 \<le> 1000" by linarith
  qed
  show ?thesis
    using f0 f1 f2 unfolding round1_def Let_def
    by (auto simp: field_simps)
qed

lemma sum_list_bounds:
  "\<forall>c\<in>set cs. 0 \<le> field c \<and> field c \<le> (100 :: real) \<Longrightarrow>
   0 \<le> sum_list (map field cs) \<and> sum_list (map field cs) \<le> 100 * real (length cs)"
  by (induction cs) (auto simp: algebra_simps)

lemma mean_score_valid:
  assumes "\<forall>c\<in>set cs. 0 \<le> field c \<and> field c \<le> 100" and "cs \<noteq> []"
  shows "valid_score (mean_score field cs)"
proof -
  have n: "0 < real (length cs)" using assms(2) by simp
  have s: "0 \<le> sum_list (map field cs)" "sum_list (map field cs) \<le> 100 * real (length cs)"
    using sum_list_bounds [OF assms(1)] by simp_all
  have "0 \<le> sum_list (map field cs) / real (length cs)"
    using s(1) n by simp
  moreover have "sum_list (map field cs) / real (length cs) \<le> 100"
    using s(2) n by (simp add: field_simps)
  ultimately show ?thesis
    unfolding mean_score_def valid_score_def by (rule round1_bounds)
qed

lemma or_default_valid: "valid_score x \<Longrightarrow> valid_score (or_default x)"
  by (simp add: valid_score_def or_default_def)

lemma analyze_interaction_valid:
  "valid_score (overall_score (analyze_interaction ps i))"
  "valid_score (prompt_complexity (analyze_interaction ps i))"
  "valid_score (context_switching (analyze_interaction ps i))"
  "valid_score (retry_frustration (analyze_interaction ps i))"
  "valid_score (configuration_friction (analyze_interaction ps i))"
  "valid_score (integration_cognition (analyze_interaction ps i))"
  using sub_scores_valid(1,2,3,5) [of i] sub_scores_valid(4) [of ps i] overall_valid [of i ps]
  by (simp_all add: analyze_interaction_scores)

lemma patched_loads_valid:
  assumes "c \<in> set (map (\<lambda>i. patch_scores (analyze_interaction ps i)) is)"
  shows "0 \<le> overall_score c \<and> overall_score c \<le> 100"
    and "0 \<le> prompt_complexity c \<and> prompt_complexity c \<le> 100"
    and "0 \<le> context_switching c \<and> context_switching c \<le> 100"
    and "0 \<le> retry_frustration c \<and> retry_frustration c \<le> 100"
    and "0 \<le> configuration_friction c \<and> configuration_friction c \<le> 100"
    and "0 \<le> integration_cognition c \<and> integration_cognition c \<le> 100"
proof -
  obtain i where c: "c = patch_scores (analyze_interaction ps i)"
    using assms by auto
  show "0 \<le> overall_score c \<and> overall_score c \<le> 100"
    using or_default_valid [OF analyze_interaction_valid(1) [of ps i]]
    by (simp add: c patch_scores_def valid_score_def)
  show "0 \<le> prompt_complexity c \<and> prompt_complexity c \<le> 100"
    using or_default_valid [OF analyze_interaction_valid(2) [of ps i]]
    by (simp add: c patch_scores_def valid_score_def)
  show "0 \<le> context_switching c \<and> context_switching c \<le> 100"
    using or_default_valid [OF analyze_interaction_valid(3) [of ps i]]
    by (simp add: c patch_scores_def valid_score_def)
  show "0 \<le> retry_frustration c \<and> retry_frustration c \<le> 100"
    using or_default_valid [OF analyze_interaction_valid(4) [of ps i]]
    by (simp add: c patch_scores_def valid_score_def)
  show "0 \<le> configuration_friction c \<and> configuration_friction c \<le> 100"
    using or_default_valid [OF analyze_interaction_valid(5) [of ps i]]
    by (simp add: c patch_scores_def valid_score_def)
  show "0 \<le> integration_cognition c \<and> integration_cognition c \<le> 100"
    using or_default_valid [OF analyze_interaction_valid(6) [of ps i]]
    by (simp add: c patch_scores_def valid_score_def)
qed

lemma report_valid:
  assumes "convert_flows_to_interactions flows \<noteq> []"
  shows "grade (generate_cognitive_analysis ps flows) =
           cognitive_grade (avg_overall_score (generate_cognitive_analysis ps flows))"
    and "valid_score (avg_overall_score (generate_cognitive_analysis ps flows))"
    and "valid_score (avg_prompt_complexity (generate_cognitive_analysis ps flows))"
    and "valid_score (avg_context_switching (generate_cognitive_analysis ps flows))"
    and "valid_score (avg_retry_frustration (generate_cognitive_analysis ps flows))"
    and "valid_score (avg_configuration_friction (generate_cognitive_analysis ps flows))"
    and "valid_score (avg_integration_cognition (generate_cognitive_analysis ps flows))"
proof -
  let ?is = "convert_flows_to_interactions flows"
  let ?cs = "map (\<lambda>i. patch_scores (analyze_interaction ps i)) ?is"
  have ne: "?cs \<noteq> []" using assms by simp
  show "grade (generate_cognitive_analysis ps flows) =
           cognitive_grade (avg_overall_score (generate_cognitive_analysis ps flows))"
    using assms by (simp add: generate_cognitive_analysis_def Let_def)
  have "valid_score (mean_score overall_score ?cs)"
    using patched_loads_valid(1) [of _ ps ?is] ne by (intro mean_score_valid) blast+
  then show "valid_score (avg_overall_score (generate_cognitive_analysis ps flows))"
    using assms by (simp add: generate_cognitive_analysis_def Let_def)
  have "valid_score (mean_score prompt_complexity ?cs)"
    using patched_loads_valid(2) [of _ ps ?is] ne by (intro mean_score_valid) blast+
  then show "valid_score (avg_prompt_complexity (generate_cognitive_analysis ps flows))"
    using assms by (simp add: generate_cognitive_analysis_def Let_def)
  have "valid_score (mean_score context_switching ?cs)"
    using patched_loads_valid(3) [of _ ps ?is] ne by (intro mean_score_valid) blast+
  then show "valid_score (avg_context_switching (generate_cognitive_analysis ps flows))"
    using assms by (simp add: generate_cognitive_analysis_def Let_def)
  have "valid_score (mean_score retry_frustration ?cs)"
    using patched_loads_valid(4) [of _ ps ?is] ne by (intro mean_score_valid) blast+
  then show "valid_score (avg_retry_frustration (generate_cognitive_analysis ps flows))"
    using assms by (simp add: generate_cognitive_analysis_def Let_def)
  have "valid_score (mean_score configuration_friction ?cs)"
    using patched_loads_valid(5) [of _ ps ?is] ne by (intro mean_score_valid) blast+
  then show "valid_score (avg_configuration_friction (generate_cognitive_analysis ps flows))"
    using assms by (simp add: generate_cognitive_analysis_def Let_def)
  have "valid_score (mean_score integration_cognition ?cs)"
    using patched_loads_valid(6) [of _ ps ?is] ne by (intro mean_score_valid) blast+
  then show "valid_score (avg_integration_cognition (generate_cognitive_analysis ps flows))"
    using assms by (simp add: generate_cognitive_analysis_def Let_def)
qed



subsection \<open>C5: score bounds and the letter grade\<close>

text \<open>
  C5. For every interaction, each of the five sub-scores and the overall score lies in
  \<open>[0, 100]\<close>, as computed and as stored in the metrics. The letter grade depends on
  the overall score alone: A iff it is at most 20, B iff above 20 and at most 40, C iff
  above 40 and at most 60, D iff above 60 and at most 80, F iff above 80. Whenever at least one interaction
  is analysed, the averaged scores of the report lie in \<open>[0, 100]\<close> as well and the
  grade of the report is that function of its overall score.
\<close>

theorem scores_bounded_and_graded:
  "valid_score (calculate_prompt_complexity i) \<and>
   valid_score (calculate_context_switching i) \<and>
   valid_score (fst (calculate_retry_frustration i)) \<and>
   valid_score (fst (calculate_configuration_friction ps i)) \<and>
   valid_score (calculate_integration_cognition i) \<and>
   valid_score (prompt_complexity (analyze_interaction ps i)) \<and>
   valid_score (context_switching (analyze_interaction ps i)) \<and>
   valid_score (retry_frustration (analyze_interaction ps i)) \<and>
   valid_score (configuration_friction (analyze_interaction ps i)) \<and>
   valid_score (integration_cognition (analyze_interaction ps i)) \<and>
   valid_score (overall_score (analyze_interaction ps i)) \<and>
   (cognitive_grade x = ''A'' \<longleftrightarrow> x \<le> 20) \<and>
   (cognitive_grade x = ''B'' \<longleftrightarrow> 20 < x \<and> x \<le> 40) \<and>
   (cognitive_grade x = ''C'' \<longleftrightarrow> 40 < x \<and> x \<le> 60) \<and>
   (cognitive_grade x = ''D'' \<longleftrightarrow> 60 < x \<and> x \<le> 80) \<and>
   (cognitive_grade x = ''F'' \<longleftrightarrow> 80 < x) \<and>
   (convert_flows_to_interactions flows \<noteq> [] \<longrightarrow>
      grade (generate_cognitive_analysis ps flows) =
        cognitive_grade (avg_overall_score (generate_cognitive_analysis ps flows)) \<and>
      valid_score (avg_overall_score (generate_cognitive_analysis ps flows)) \<and>
      valid_score (avg_prompt_complexity (generate_cognitive_analysis ps flows)) \<and>
      valid_score (avg_context_switching (generate_cognitive_analysis ps flows)) \<and>
      valid_score (avg_retry_frustration (generate_cognitive_analysis ps flows)) \<and>
      valid_score (avg_configuration_friction (generate_cognitive_analysis ps flows)) \<and>
      valid_score (avg_integration_cognition (generate_cognitive_analysis ps flows)))"
proof -
  have g: "(cognitive_grade x = ''A'' \<longleftrightarrow> x \<le> 20) \<and>
   (cognitive_grade x = ''B'' \<longleftrightarrow> 20 < x \<and> x \<le> 40) \<and>
   (cognitive_grade x = ''C'' \<longleftrightarrow> 40 < x \<and> x \<le> 60) \<and>
   (cognitive_grade x = ''D'' \<longleftrightarrow> 60 < x \<and> x \<le> 80) \<and>
   (cognitive_grade x = ''F'' \<longleftrightarrow> 80 < x)"
    by (simp add: cognitive_grade_def)
  have s: "valid_score (calculate_prompt_complexity i) \<and>
   valid_score (calculate_context_switching i) \<and>
   valid_score (fst (calculate_retry_frustration i)) \<and>
   valid_score (fst (calculate_configuration_friction ps i)) \<and>
   valid_score (calculate_integration_cognition i)"
    using sub_scores_valid(1,2,3,5) [of i] sub_scores_valid(4) [of ps i] by simp
  have m: "valid_score (prompt_complexity (analyze_interaction ps i)) \<and>
   valid_score (context_switching (analyze_interaction ps i)) \<and>
   valid_score (retry_frustration (analyze_interaction ps i)) \<and>
   valid_score (configuration_friction (analyze_interaction ps i)) \<and>
   valid_score (integration_cognition (analyze_interaction ps i)) \<and>
   valid_score (overall_score (analyze_interaction ps i))"
    using analyze_interaction_valid [of ps i] by simp
  have r: "convert_flows_to_interactions flows \<noteq> [] \<longrightarrow>
      grade (generate_cognitive_analysis ps flows) =
        cognitive_grade (avg_overall_score (generate_cognitive_analysis ps flows)) \<and>
      valid_score (avg_overall_score (generate_cognitive_analysis ps flows)) \<and>
      valid_score (avg_prompt_complexity (generate_cognitive_analysis ps flows)) \<and>
      valid_score (avg_context_switching (generate_cognitive_analysis ps flows)) \<and>
      valid_score (avg_retry_frustration (generate_cognitive_analysis ps flows)) \<and>
      valid_score (avg_configuration_friction (generate_cognitive_analysis ps flows)) \<and>
      valid_score (avg_integration_cognition (generate_cognitive_analysis ps flows))"
    using report_valid [of flows ps] by blast
  from s m g r show ?thesis by blast
qed


subsection \<open>C10: interactions made from flows\<close>

lemma convert_flow_fields:
  "convert_flow f = Some i \<Longrightarrow>
   retry_count i = 0 \<and> message_traces i = flow_traces f"
  by (auto simp: convert_flow_def split: option.splits)

lemma flow_traces_no_error: "t \<in> set (flow_traces f) \<Longrightarrow> error_code t = None"
  by (auto simp: flow_traces_def Let_def split: if_splits)

lemma convert_loop_member:
  "i \<in> set (convert_loop flows acc) \<Longrightarrow> i \<in> set acc \<or> (\<exists>f\<in>set flows. convert_flow f = Some i)"
proof (induction flows arbitrary: acc)
  case Nil
  then show ?case by simp
next
  case (Cons f rest)
  show ?case
  proof (cases "convert_flow f")
    case None
    then show ?thesis using Cons.prems by simp
  next
    case (Some j)
    then have "i \<in> set (convert_loop rest (acc @ [j]))"
      using Cons.prems by simp
    from Cons.IH [OF this] Some show ?thesis by auto
  qed
qed

lemma no_error_penalties:
  assumes "\<forall>t\<in>set ts. error_code t = None"
  shows "filter is_actual_error ts = []"
    and "sum_list (map auth_penalty_of ts) = 0"
    and "sum_list (map param_penalty_of ts) = 0"
    and "sum_list (map (config_keyword_penalty_of ps) ts) = 0"
  using assms
  by (induction ts)
     (simp_all add: is_actual_error_def auth_penalty_of_def param_penalty_of_def
        config_keyword_penalty_of_def)

text \<open>
  C10. Every interaction made from a timeline flow has \<open>retry_count = 0\<close> and traces
  without an error code, so the scorer's retry penalty, hard-error penalty,
  authentication-error penalty, validation-error penalty and config-keyword penalty are
  all zero for it.
\<close>

theorem timeline_interactions_have_no_penalties:
  "\<forall>i \<in> set (convert_flows_to_interactions flows).
     retry_count i = 0 \<and>
     (\<forall>t \<in> set (message_traces i). error_code t = None) \<and>
     rb_retry_penalty (snd (calculate_retry_frustration i)) = 0 \<and>
     rb_error_penalty (snd (calculate_retry_frustration i)) = 0 \<and>
     cb_auth_penalty (snd (calculate_configuration_friction ps i)) = 0 \<and>
     cb_param_penalty (snd (calculate_configuration_friction ps i)) = 0 \<and>
     cb_config_keyword_penalty (snd (calculate_configuration_friction ps i)) = 0"
proof
  fix i assume "i \<in> set (convert_flows_to_interactions flows)"
  then obtain f where f: "convert_flow f = Some i"
    using convert_loop_member [of i flows "[]"]
    by (auto simp: convert_flows_to_interactions_def)
  then have r: "retry_count i = 0" and m: "message_traces i = flow_traces f"
    using convert_flow_fields by blast+
  have e: "\<forall>t \<in> set (message_traces i). error_code t = None"
    using m flow_traces_no_error by simp
  show "retry_count i = 0 \<and>
     (\<forall>t \<in> set (message_traces i). error_code t = None) \<and>
     rb_retry_penalty (snd (calculate_retry_frustration i)) = 0 \<and>
     rb_error_penalty (snd (calculate_retry_frustration i)) = 0 \<and>
     cb_auth_penalty (snd (calculate_configuration_friction ps i)) = 0 \<and>
     cb_param_penalty (snd (calculate_configuration_friction ps i)) = 0 \<and>
     cb_config_keyword_penalty (snd (calculate_configuration_friction ps i)) = 0"
    using r e no_error_penalties [OF e]
    by (simp add: calculate_retry_frustration_def calculate_configuration_friction_def Let_def)
qed

subsection \<open>The scorer on the samples\<close>

lemma three_context: "calculate_context_switching three_actions = 20"
  by (simp add: calculate_context_switching_def three_actions_def)

lemma three_retry: "fst (calculate_retry_frustration three_actions) = 10"
  by (simp add: calculate_retry_frustration_def three_actions_def baseline_latency_ms_def)

lemma three_config: "fst (calculate_configuration_friction no_str three_actions) = 10"
  by (simp add: calculate_configuration_friction_def three_actions_def baseline_latency_ms_def)

lemma three_integration: "calculate_integration_cognition three_actions = 20"
  by (simp add: calculate_integration_cognition_def three_actions_def)

lemma three_overall: "calculate_overall_cognitive_load 49 20 10 10 20 = 377 / 20"
  by (simp add: calculate_overall_cognitive_load_def
      weight_prompt_complexity_def weight_context_switching_def weight_retry_frustration_def
      weight_configuration_friction_def weight_integration_cognition_def)

lemma three_actions_scores:
  "prompt_complexity (analyze_interaction no_str three_actions) = 49"
  "context_switching (analyze_interaction no_str three_actions) = 20"
  "retry_frustration (analyze_interaction no_str three_actions) = 10"
  "configuration_friction (analyze_interaction no_str three_actions) = 10"
  "integration_cognition (analyze_interaction no_str three_actions) = 20"
  "overall_score (analyze_interaction no_str three_actions) = 377 / 20"
  by (simp_all add: analyze_interaction_scores three_code three_context three_retry
      three_config three_integration three_overall)


lemma pause_interactions:
  "map_option (\<lambda>fs. length (convert_flows_to_interactions fs))
     (group_into_flows 30 pause_events) = Some 2"
  by code_simp

theorem overall_is_weighted_sum_witness:
  "overall_score (analyze_interaction no_str three_actions) = 377 / 20 \<and>
   49 * (15 / 100) + 20 * (20 / 100) + 10 * (30 / 100) + 10 * (25 / 100) + 20 * (10 / 100) =
     (377 / 20 :: real)"
  using overall_is_weighted_sum [of no_str three_actions]
  by (simp add: three_actions_scores)

theorem scores_bounded_and_graded_witness:
  "valid_score (overall_score (analyze_interaction no_str three_actions)) \<and>
   overall_score (analyze_interaction no_str three_actions) = 377 / 20 \<and>
   cognitive_grade (377 / 20) = ''A'' \<and>
   (\<exists>flows. group_into_flows 30 pause_events = Some flows \<and>
      convert_flows_to_interactions flows \<noteq> [] \<and>
      grade (generate_cognitive_analysis no_str flows) =
        cognitive_grade (avg_overall_score (generate_cognitive_analysis no_str flows)) \<and>
      valid_score (avg_overall_score (generate_cognitive_analysis no_str flows)))"
proof -
  obtain flows where g: "group_into_flows 30 pause_events = Some flows"
    and n: "length (convert_flows_to_interactions flows) = 2"
    using pause_interactions by (cases "group_into_flows 30 pause_events") auto
  from n have ne: "convert_flows_to_interactions flows \<noteq> []" by auto
  note t = scores_bounded_and_graded [where i = three_actions and ps = no_str
      and x = "377 / 20" and flows = flows]
  have a: "valid_score (overall_score (analyze_interaction no_str three_actions))"
    "cognitive_grade (377 / 20) = ''A''"
    using t by simp_all
  have b: "grade (generate_cognitive_analysis no_str flows) =
        cognitive_grade (avg_overall_score (generate_cognitive_analysis no_str flows))"
    "valid_score (avg_overall_score (generate_cognitive_analysis no_str flows))"
    using t ne by simp_all
  show ?thesis
    using a b g ne by (simp add: three_actions_scores)
qed

theorem timeline_interactions_have_no_penalties_witness:
  "\<exists>flows. group_into_flows 30 pause_events = Some flows \<and>
     length (convert_flows_to_interactions flows) = 2 \<and>
     (\<forall>i \<in> set (convert_flows_to_interactions flows).
        retry_count i = 0 \<and>
        (\<forall>t \<in> set (message_traces i). error_code t = None) \<and>
        rb_retry_penalty (snd (calculate_retry_frustration i)) = 0 \<and>
        rb_error_penalty (snd (calculate_retry_frustration i)) = 0 \<and>
        cb_auth_penalty (snd (calculate_configuration_friction no_str i)) = 0 \<and>
        cb_param_penalty (snd (calculate_configuration_friction no_str i)) = 0 \<and>
        cb_config_keyword_penalty (snd (calculate_configuration_friction no_str i)) = 0)"
proof -
  obtain flows where g: "group_into_flows 30 pause_events = Some flows"
    and n: "length (convert_flows_to_interactions flows) = 2"
    using pause_interactions by (cases "group_into_flows 30 pause_events") auto
  show ?thesis
    using g n timeline_interactions_have_no_penalties [of flows no_str]
    by (intro exI [of _ flows] conjI)
qed


end
